theory Spec2Isabelle
  imports Complex_Main "HOL-Library.Multiset" "HOL-Library.Sublist"
    "HOL-Library.Char_ord" "HOL-Library.List_Lexorder"
begin

section \<open>The PE fund matcher: scoring engine and shortlist selector\<close>

text \<open>
  A shallow embedding of \<^verbatim>\<open>query_pe_db\<close> (tools.py) and \<^verbatim>\<open>shortlist_pe_funds\<close>
  (matcher.py). Conventions:
  \<^item> a Python dict with a fixed set of optional keys is a record of \<open>option\<close> fields
    (\<open>None\<close> is "key absent"); a \<open>{min, max}\<close> range dict is an association list,
    since the code tests its truthiness (non-emptiness) and reads keys with \<open>.get\<close>;
  \<^item> a Python \<open>float\<close> is an exact rational: the rounding error of binary floating
    point is not modelled, \<open>round(x, 4)\<close> is round-half-even on the exact value;
  \<^item> a Python \<open>str\<close> is a \<open>string\<close>; \<open>lower\<close> acts on the ASCII letters;
  \<^item> the dataset is the list \<open>json.load\<close> returned; a record without the key
    \<open>name\<close> makes \<open>f["name"]\<close> raise, which is the error value \<open>KeyError\<close>.
\<close>

subsection \<open>Python helpers\<close>

datatype error = KeyError string | TypeError

type_synonym pyrange = "(string \<times> int option) list"

definition rget :: "pyrange \<Rightarrow> string \<Rightarrow> int option" where
  \<comment> \<open>\<open>d.get(k)\<close>: \<open>None\<close> for a missing key and for a key holding \<open>None\<close>\<close>
  "rget d k = (case map_of d k of None \<Rightarrow> None | Some v \<Rightarrow> v)"

definition truthy :: "'a list \<Rightarrow> bool" where
  \<comment> \<open>truth value of a list, a dict (as association list) or a string\<close>
  "truthy xs = (xs \<noteq> [])"

definition or_empty :: "'a list option \<Rightarrow> 'a list" where
  \<comment> \<open>\<open>d.get(k, [])\<close>, \<open>d.get(k, {})\<close>, \<open>d.get(k) or {}\<close>, \<open>d.get(k) or ""\<close>\<close>
  "or_empty v = (case v of None \<Rightarrow> [] | Some xs \<Rightarrow> xs)"

definition lower_char :: "char \<Rightarrow> char" where
  "lower_char c =
     (case map_of (zip ''ABCDEFGHIJKLMNOPQRSTUVWXYZ'' ''abcdefghijklmnopqrstuvwxyz'') c of
        None \<Rightarrow> c | Some d \<Rightarrow> d)"

definition lower :: "string \<Rightarrow> string" where
  "lower s = map lower_char s"

fun contains :: "string \<Rightarrow> string \<Rightarrow> bool" where
  \<comment> \<open>\<open>contains x t\<close> is Python's \<open>x in t\<close> on strings\<close>
  "contains x [] = (x = [])"
| "contains x (c # cs) = (prefix x (c # cs) \<or> contains x cs)"

fun dedupe :: "'a list \<Rightarrow> 'a list" where
  \<comment> \<open>\<open>list(dict.fromkeys(xs))\<close>: the first occurrence of each element, in order\<close>
  "dedupe [] = []"
| "dedupe (x # xs) = x # dedupe (filter (\<lambda>y. y \<noteq> x) xs)"

fun join :: "string \<Rightarrow> string list \<Rightarrow> string" where
  \<comment> \<open>\<open>sep.join(xs)\<close>\<close>
  "join sep [] = []"
| "join sep [x] = x"
| "join sep (x # y # ys) = x @ sep @ join sep (y # ys)"

definition py_round4 :: "rat \<Rightarrow> rat" where
  \<comment> \<open>\<open>round(x, 4)\<close>: to the nearest multiple of 1/10000, ties to the even one\<close>
  "py_round4 x =
     (let y = x * 10000;
          n = \<lfloor>y\<rfloor>;
          d = y - of_int n
      in of_int (if d < 1 / 2 then n
                 else if 1 / 2 < d then n + 1
                 else if even n then n else n + 1) / 10000)"

definition slice_to :: "int \<Rightarrow> 'a list \<Rightarrow> 'a list" where
  \<comment> \<open>\<open>xs[:n]\<close>: a negative \<open>n\<close> counts from the end\<close>
  "slice_to n xs =
     (if 0 \<le> n then take (nat n) xs else take (nat (int (length xs) + n)) xs)"

definition sorted_reverse :: "('a \<Rightarrow> 'k::linorder) \<Rightarrow> 'a list \<Rightarrow> 'a list" where
  \<comment> \<open>\<open>sorted(xs, key=key, reverse=True)\<close>: the list is reversed, sorted by a stable
      ascending sort, and reversed again, as CPython's \<open>list.sort\<close> does\<close>
  "sorted_reverse key xs = rev (sort_key key (rev xs))"

subsection \<open>Data model\<close>

record fund_row =
  name :: "string option"
  industries :: "string list option"
  regions :: "string list option"
  revenue_focus_usd :: "pyrange option"
  employee_focus :: "pyrange option"
  deal_types :: "string list option"

record criteria =
  crit_industries :: "string list option"
  crit_regions :: "string list option"
  crit_revenue_usd :: "pyrange option"
  crit_employees :: "pyrange option"
  crit_deal_type :: "string option"

record company_profile =
  prof_industries :: "string list option"
  prof_locations :: "string option list option"
  prof_revenue_range_usd :: "pyrange option"
  prof_employee_count_range :: "pyrange option"

text \<open>The factor-specific keys of a subscore dict.\<close>

datatype detail =
    NoDetail
  | IndustryDetail (overlap_count: nat) (company_count: nat)
      (company_industries: "string list") (fund_industries: "string list")
  | RegionDetail (overlap_count: nat)
      (company_regions: "string list") (fund_regions: "string list")
  | RangeDetail (binary_fit: rat) (coverage_ratio: "rat option")
      (company_range: pyrange) (fund_range: pyrange)
  | DealDetail (company_deal_type: string) (fund_deal_types: "string list")

record subscore =
  applied :: bool
  weight :: rat
  raw :: "rat option"
  contribution :: "rat option"
  detail :: detail

record subscores =
  industry :: subscore
  region :: subscore
  revenue :: subscore
  employees :: subscore
  deal :: subscore

record breakdown =
  bd_score :: rat
  bd_subscores :: subscores

text \<open>A result of \<^verbatim>\<open>query_pe_db\<close>; \<open>'m\<close> is what the key \<open>match\<close> holds.\<close>

record 'm scored =
  fund :: string
  score :: rat
  match :: 'm
  subscores :: subscores

record rationale =
  summary :: string
  rat_subscores :: subscores

record entry =
  entry_fund :: string
  entry_score :: rat
  entry_rationale :: rationale

subsection \<open>The scoring engine (tools.py)\<close>

definition range_coverage ::
  "int option \<Rightarrow> int option \<Rightarrow> int option \<Rightarrow> int option \<Rightarrow> rat option" where
  "range_coverage cmin cmax fmin fmax =
     (case (cmin, cmax, fmin, fmax) of
        (Some cmin', Some cmax', Some fmin', Some fmax') \<Rightarrow>
          if cmax' < cmin' \<or> fmax' < fmin' then Some 0
          else
            let inter_min = max cmin' fmin';
                inter_max = min cmax' fmax';
                inter = max 0 (of_int (inter_max - inter_min));
                clen = max (1 / 1000000000) (of_int (cmax' - cmin'))
            in Some (max 0 (min 1 (inter / clen)))
      | _ \<Rightarrow> None)"

definition w_industry :: rat where "w_industry = 4 / 10"
definition w_region :: rat where "w_region = 2 / 10"
definition w_revenue :: rat where "w_revenue = 2 / 10"
definition w_employees :: rat where "w_employees = 1 / 10"
definition w_deal :: rat where "w_deal = 1 / 10"

definition not_applied :: "rat \<Rightarrow> subscore" where
  "not_applied w =
     \<lparr>applied = False, weight = w, raw = None, contribution = None, detail = NoDetail\<rparr>"

text \<open>
  Each block of \<^verbatim>\<open>score_with_breakdown\<close> takes the running \<open>total\<close> and returns the
  subscore it files under its key together with the updated \<open>total\<close>.
\<close>

definition industry_block :: "string set \<Rightarrow> fund_row \<Rightarrow> rat \<Rightarrow> subscore \<times> rat" where
  "industry_block inds f total' =
     (if inds \<noteq> {} then
        let fund_inds = map lower (or_empty (industries f));
            overlap = card (inds \<inter> set fund_inds);
            raw' = min 1 (of_nat overlap / of_nat (max 1 (card inds)));
            contrib = w_industry * raw'
        in (\<lparr>applied = True, weight = w_industry, raw = Some raw',
             contribution = Some (py_round4 contrib),
             detail = IndustryDetail overlap (card inds) (sorted_list_of_set inds)
                        (or_empty (industries f))\<rparr>,
            total' + contrib)
      else (not_applied w_industry, total'))"

definition region_block :: "string set \<Rightarrow> fund_row \<Rightarrow> rat \<Rightarrow> subscore \<times> rat" where
  "region_block regs f total' =
     (if regs \<noteq> {} then
        let fund_regs = map lower (or_empty (regions f));
            overlap = card (regs \<inter> set fund_regs);
            raw' = (if 0 < overlap then 1 else 0);
            contrib = w_region * raw'
        in (\<lparr>applied = True, weight = w_region, raw = Some raw',
             contribution = Some (py_round4 contrib),
             detail = RegionDetail overlap (sorted_list_of_set regs)
                        (or_empty (regions f))\<rparr>,
            total' + contrib)
      else (not_applied w_region, total'))"

definition range_block :: "rat \<Rightarrow> pyrange \<Rightarrow> pyrange \<Rightarrow> rat \<Rightarrow> subscore \<times> rat" where
  \<comment> \<open>the revenue block and the employees block, which differ in the weight, the
      criteria range \<open>c\<close> and the fund's focus range \<open>f_c\<close> only\<close>
  "range_block w c f_c total' =
     (if truthy c then
        let lo_ok = (case rget c ''min'' of None \<Rightarrow> True
                     | Some c_min \<Rightarrow>
                         (case rget f_c ''min'' of None \<Rightarrow> True
                          | Some f_min \<Rightarrow> f_min \<le> c_min));
            hi_ok = (case rget c ''max'' of None \<Rightarrow> True
                     | Some c_max \<Rightarrow>
                         (case rget f_c ''max'' of None \<Rightarrow> True
                          | Some f_max \<Rightarrow> c_max \<le> f_max));
            binary_fit' = (if lo_ok \<and> hi_ok then 1 else 0);
            coverage = range_coverage (rget c ''min'') (rget c ''max'')
                         (rget f_c ''min'') (rget f_c ''max'');
            raw' = binary_fit';
            contrib = w * raw'
        in (\<lparr>applied = True, weight = w, raw = Some raw',
             contribution = Some (py_round4 contrib),
             detail = RangeDetail binary_fit' coverage c f_c\<rparr>,
            total' + contrib)
      else (not_applied w, total'))"

definition deal_block :: "string \<Rightarrow> fund_row \<Rightarrow> rat \<Rightarrow> subscore \<times> rat" where
  "deal_block deal' f total' =
     (if truthy deal' then
        let raw' = (if deal' \<in> set (map lower (or_empty (deal_types f))) then 1 else 0);
            contrib = w_deal * raw'
        in (\<lparr>applied = True, weight = w_deal, raw = Some raw',
             contribution = Some (py_round4 contrib),
             detail = DealDetail deal' (or_empty (deal_types f))\<rparr>,
            total' + contrib)
      else (not_applied w_deal, total'))"

text \<open>
  The closure \<^verbatim>\<open>score_with_breakdown\<close> reads \<open>inds\<close>, \<open>regs\<close>, \<open>rev\<close>, \<open>emp\<close> and
  \<open>deal\<close> from the enclosing call of \<^verbatim>\<open>query_pe_db\<close>; here they are parameters.
\<close>

definition score_with_breakdown ::
  "string set \<Rightarrow> string set \<Rightarrow> pyrange \<Rightarrow> pyrange \<Rightarrow> string \<Rightarrow> fund_row \<Rightarrow> breakdown" where
  "score_with_breakdown inds regs rev' emp deal' f =
     (let total' = 0;
          (s_ind, total') = industry_block inds f total';
          (s_reg, total') = region_block regs f total';
          f_rev = or_empty (revenue_focus_usd f);
          (s_rev, total') = range_block w_revenue rev' f_rev total';
          f_emp = or_empty (employee_focus f);
          (s_emp, total') = range_block w_employees emp f_emp total';
          (s_deal, total') = deal_block deal' f total'
      in \<lparr>bd_score = py_round4 total',
          bd_subscores = \<lparr>industry = s_ind, region = s_reg, revenue = s_rev,
                           employees = s_emp, deal = s_deal\<rparr>\<rparr>)"

text \<open>The values \<^verbatim>\<open>query_pe_db\<close> derives from the criteria before it scores.\<close>

definition crit_inds :: "criteria \<Rightarrow> string set" where
  "crit_inds c = set (map lower (or_empty (crit_industries c)))"

definition crit_regs :: "criteria \<Rightarrow> string set" where
  "crit_regs c = set (map lower (or_empty (crit_regions c)))"

definition crit_rev :: "criteria \<Rightarrow> pyrange" where
  "crit_rev c = or_empty (crit_revenue_usd c)"

definition crit_emp :: "criteria \<Rightarrow> pyrange" where
  "crit_emp c = or_empty (crit_employees c)"

definition crit_deal :: "criteria \<Rightarrow> string" where
  "crit_deal c = lower (or_empty (crit_deal_type c))"

definition score_fund :: "criteria \<Rightarrow> fund_row \<Rightarrow> breakdown" where
  "score_fund c f =
     score_with_breakdown (crit_inds c) (crit_regs c) (crit_rev c) (crit_emp c) (crit_deal c) f"

text \<open>The loop that fills \<open>scored\<close>; \<open>f["name"]\<close> raises on a record without a name.\<close>

fun score_loop ::
  "(fund_row \<Rightarrow> breakdown) \<Rightarrow> fund_row list \<Rightarrow> fund_row scored list
     \<Rightarrow> error + fund_row scored list" where
  "score_loop sw [] scored = Inr scored"
| "score_loop sw (f # funds) scored =
     (let s = sw f
      in case name f of
           None \<Rightarrow> Inl (KeyError ''name'')
         | Some n \<Rightarrow>
             score_loop sw funds
               (scored @ [\<lparr>fund = n, score = bd_score s, match = f,
                           subscores = bd_subscores s\<rparr>]))"

definition query_pe_db :: "criteria \<Rightarrow> fund_row list \<Rightarrow> error + fund_row scored list" where
  "query_pe_db c funds =
     (case score_loop (score_fund c) funds [] of
        Inl e \<Rightarrow> Inl e
      | Inr scored \<Rightarrow> Inr (sorted_reverse score scored))"

subsection \<open>The scoring engine over a store of Python objects\<close>

text \<open>
  The same code, with the objects it works on kept in a store. The store is the list of
  the dicts and lists that exist; the address of an object is its index, and allocating
  an object appends it. A fund record, with the lists and range dicts it holds, is one
  dict object, so an assignment into a fund or into one of its lists would be a write at
  the address of the fund. The dataset is a list object of references to fund objects, as
  \<^verbatim>\<open>json.load\<close> leaves it.

  The two statements of \<^verbatim>\<open>query_pe_db\<close> that mutate an object are the item assignment
  \<^verbatim>\<open>subs[key] = {...}\<close> and \<^verbatim>\<open>scored.append({...})\<close>: they are \<open>setitem\<close> and
  \<open>list_append\<close>, which write at the address they are given, whichever object it holds.
  Each block reads the fund from the store as it is when the block runs. The value a block
  computes from the fund it has read is the value of the block of the engine above. The
  criteria are passed by value; objects that nothing refers to after the statement that
  creates them (the \<open>weights\<close> dict, the lower-cased lists, the dict that
  \<^verbatim>\<open>score_with_breakdown\<close> returns) are not allocated; the lists and ranges that a
  subscore holds are stored by value.
\<close>

type_synonym addr = nat

datatype val = VNone | VBool bool | VInt int | VFloat rat | VStr string
  | VList "val list" | VDict "(string \<times> val) list" | VRef addr

datatype obj = DictObj "(string \<times> val) list" | ListObj "val list"

type_synonym store = "obj list"

text \<open>Allocation, item assignment on a dict and \<open>append\<close> on a list.\<close>

definition alloc :: "store \<Rightarrow> obj \<Rightarrow> store \<times> addr" where
  "alloc h ob = (h @ [ob], length h)"

fun dict_set :: "string \<Rightarrow> val \<Rightarrow> (string \<times> val) list \<Rightarrow> (string \<times> val) list" where
  "dict_set k v [] = [(k, v)]"
| "dict_set k v ((k', v') # kvs) =
     (if k' = k then (k, v) # kvs else (k', v') # dict_set k v kvs)"

definition setitem :: "store \<Rightarrow> addr \<Rightarrow> string \<Rightarrow> val \<Rightarrow> error + store" where
  "setitem h a k v =
     (if a < length h then
        (case h ! a of
           DictObj kvs \<Rightarrow> Inr (h[a := DictObj (dict_set k v kvs)])
         | ListObj vs \<Rightarrow> Inl TypeError)
      else Inl TypeError)"

definition list_append :: "store \<Rightarrow> addr \<Rightarrow> val \<Rightarrow> error + store" where
  "list_append h a v =
     (if a < length h then
        (case h ! a of
           ListObj vs \<Rightarrow> Inr (h[a := ListObj (vs @ [v])])
         | DictObj kvs \<Rightarrow> Inl TypeError)
      else Inl TypeError)"

text \<open>
  Reading a fund record: the dict at an address is decoded into a \<open>fund_row\<close>; a value
  of the wrong type is a \<open>TypeError\<close> of the statement that reads it.
\<close>

fun str_of :: "val \<Rightarrow> string option" where
  "str_of (VStr s) = Some s"
| "str_of _ = None"

fun str_list_of :: "val \<Rightarrow> string list option" where
  "str_list_of (VList vs) = those (map str_of vs)"
| "str_list_of _ = None"

fun bound_of :: "val \<Rightarrow> int option option" where
  "bound_of VNone = Some None"
| "bound_of (VInt i) = Some (Some i)"
| "bound_of _ = None"

fun range_of :: "val \<Rightarrow> pyrange option" where
  "range_of (VDict kvs) = those (map (\<lambda>(k, v). map_option (Pair k) (bound_of v)) kvs)"
| "range_of _ = None"

definition opt_field ::
  "(val \<Rightarrow> 'a option) \<Rightarrow> (string \<times> val) list \<Rightarrow> string \<Rightarrow> 'a option option" where
  "opt_field dec kvs k =
     (case map_of kvs k of None \<Rightarrow> Some None | Some v \<Rightarrow> map_option Some (dec v))"

definition fund_of_dict :: "(string \<times> val) list \<Rightarrow> fund_row option" where
  "fund_of_dict kvs =
     (case (opt_field str_of kvs ''name'', opt_field str_list_of kvs ''industries'',
            opt_field str_list_of kvs ''regions'', opt_field range_of kvs ''revenue_focus_usd'',
            opt_field range_of kvs ''employee_focus'', opt_field str_list_of kvs ''deal_types'') of
        (Some n, Some i, Some r, Some rf, Some ef, Some d) \<Rightarrow>
          Some \<lparr>name = n, industries = i, regions = r, revenue_focus_usd = rf,
                employee_focus = ef, deal_types = d\<rparr>
      | _ \<Rightarrow> None)"

definition read_fund :: "store \<Rightarrow> addr \<Rightarrow> fund_row option" where
  "read_fund h a =
     (if a < length h then
        (case h ! a of DictObj kvs \<Rightarrow> fund_of_dict kvs | ListObj vs \<Rightarrow> None)
      else None)"

text \<open>The dict literal that a block files under its key in \<open>subs\<close>.\<close>

definition opt_float :: "rat option \<Rightarrow> val" where
  "opt_float r = (case r of None \<Rightarrow> VNone | Some x \<Rightarrow> VFloat x)"

definition val_of_range :: "pyrange \<Rightarrow> val" where
  "val_of_range r = VDict (map (\<lambda>(k, b). (k, case b of None \<Rightarrow> VNone | Some i \<Rightarrow> VInt i)) r)"

definition val_of_subscore :: "subscore \<Rightarrow> val" where
  "val_of_subscore s =
     VDict (case detail s of
        NoDetail \<Rightarrow>
          [(''applied'', VBool (applied s)), (''weight'', VFloat (weight s))]
      | IndustryDetail oc cc ci fi \<Rightarrow>
          [(''applied'', VBool (applied s)), (''raw'', opt_float (raw s)),
           (''overlap_count'', VInt (int oc)), (''company_count'', VInt (int cc)),
           (''weight'', VFloat (weight s)), (''contribution'', opt_float (contribution s)),
           (''company_industries'', VList (map VStr ci)),
           (''fund_industries'', VList (map VStr fi))]
      | RegionDetail oc cr fr \<Rightarrow>
          [(''applied'', VBool (applied s)), (''raw'', opt_float (raw s)),
           (''overlap_count'', VInt (int oc)),
           (''weight'', VFloat (weight s)), (''contribution'', opt_float (contribution s)),
           (''company_regions'', VList (map VStr cr)),
           (''fund_regions'', VList (map VStr fr))]
      | RangeDetail bf cov cr fr \<Rightarrow>
          [(''applied'', VBool (applied s)), (''raw'', opt_float (raw s)),
           (''binary_fit'', VFloat bf), (''coverage_ratio'', opt_float cov),
           (''company_range'', val_of_range cr), (''fund_range'', val_of_range fr),
           (''weight'', VFloat (weight s)), (''contribution'', opt_float (contribution s))]
      | DealDetail d fd \<Rightarrow>
          [(''applied'', VBool (applied s)), (''raw'', opt_float (raw s)),
           (''company_deal_type'', VStr d), (''fund_deal_types'', VList (map VStr fd)),
           (''weight'', VFloat (weight s)), (''contribution'', opt_float (contribution s))])"

text \<open>
  One block of \<^verbatim>\<open>score_with_breakdown\<close>: read the fund, compute the subscore and the
  new total, assign the subscore to \<open>subs[key]\<close>.
\<close>

definition block_st ::
  "(fund_row \<Rightarrow> rat \<Rightarrow> subscore \<times> rat) \<Rightarrow> string \<Rightarrow> store \<Rightarrow> addr \<Rightarrow> addr \<Rightarrow> rat
     \<Rightarrow> error + store \<times> rat" where
  "block_st blk key h f subs total' =
     (case read_fund h f of
        None \<Rightarrow> Inl TypeError
      | Some fr \<Rightarrow>
          (let (s, total') = blk fr total'
           in case setitem h subs key (val_of_subscore s) of
                Inl e \<Rightarrow> Inl e
              | Inr h \<Rightarrow> Inr (h, total')))"

definition score_with_breakdown_st ::
  "string set \<Rightarrow> string set \<Rightarrow> pyrange \<Rightarrow> pyrange \<Rightarrow> string \<Rightarrow> store \<Rightarrow> addr
     \<Rightarrow> error + store \<times> rat \<times> addr" where
  "score_with_breakdown_st inds regs rev' emp deal' h f =
     (let (h, subs) = alloc h (DictObj [])
      in case block_st (industry_block inds) ''industry'' h f subs 0 of
           Inl e \<Rightarrow> Inl e
         | Inr (h, total') \<Rightarrow>
      case block_st (region_block regs) ''region'' h f subs total' of
           Inl e \<Rightarrow> Inl e
         | Inr (h, total') \<Rightarrow>
      case block_st (\<lambda>fr. range_block w_revenue rev' (or_empty (revenue_focus_usd fr)))
             ''revenue'' h f subs total' of
           Inl e \<Rightarrow> Inl e
         | Inr (h, total') \<Rightarrow>
      case block_st (\<lambda>fr. range_block w_employees emp (or_empty (employee_focus fr)))
             ''employees'' h f subs total' of
           Inl e \<Rightarrow> Inl e
         | Inr (h, total') \<Rightarrow>
      case block_st (deal_block deal') ''deal'' h f subs total' of
           Inl e \<Rightarrow> Inl e
         | Inr (h, total') \<Rightarrow> Inr (h, py_round4 total', subs))"

text \<open>The dict that the loop appends to \<open>scored\<close>, and the loop.\<close>

definition result_val :: "string \<Rightarrow> rat \<Rightarrow> addr \<Rightarrow> addr \<Rightarrow> val" where
  "result_val n sc f subs =
     VDict [(''fund'', VStr n), (''score'', VFloat sc), (''match'', VRef f),
            (''subscores'', VRef subs)]"

fun score_loop_st :: "criteria \<Rightarrow> store \<Rightarrow> val list \<Rightarrow> addr \<Rightarrow> error + store" where
  "score_loop_st c h [] scored = Inr h"
| "score_loop_st c h (v # vs) scored =
     (case v of
        VRef f \<Rightarrow>
          (case score_with_breakdown_st (crit_inds c) (crit_regs c) (crit_rev c) (crit_emp c)
                  (crit_deal c) h f of
             Inl e \<Rightarrow> Inl e
           | Inr (h, sc, subs) \<Rightarrow>
               (case read_fund h f of
                  None \<Rightarrow> Inl TypeError
                | Some fr \<Rightarrow>
                    (case name fr of
                       None \<Rightarrow> Inl (KeyError ''name'')
                     | Some n \<Rightarrow>
                         (case list_append h scored (result_val n sc f subs) of
                            Inl e \<Rightarrow> Inl e
                          | Inr h \<Rightarrow> score_loop_st c h vs scored))))
      | _ \<Rightarrow> Inl TypeError)"

text \<open>Reading a key of a result dict; \<open>x["score"]\<close> is the sort key.\<close>

fun item_of :: "string \<Rightarrow> val \<Rightarrow> val option" where
  "item_of k (VDict kvs) = map_of kvs k"
| "item_of k _ = None"

definition score_of :: "val \<Rightarrow> rat option" where
  "score_of r = (case item_of ''score'' r of Some (VFloat s) \<Rightarrow> Some s | _ \<Rightarrow> None)"

definition score_key :: "val \<Rightarrow> rat" where
  "score_key r = (case score_of r of None \<Rightarrow> 0 | Some s \<Rightarrow> s)"

definition query_pe_db_st :: "criteria \<Rightarrow> store \<Rightarrow> addr \<Rightarrow> error + store \<times> addr" where
  "query_pe_db_st c h funds =
     (if funds < length h then
        (case h ! funds of
           ListObj vs \<Rightarrow>
             (let (h, scored) = alloc h (ListObj [])
              in case score_loop_st c h vs scored of
                   Inl e \<Rightarrow> Inl e
                 | Inr h \<Rightarrow>
                     (case h ! scored of
                        ListObj rs \<Rightarrow>
                          if list_all (\<lambda>r. score_of r \<noteq> None) rs
                          then Inr (alloc h (ListObj (sorted_reverse score_key rs)))
                          else Inl (KeyError ''score'')
                      | DictObj kvs \<Rightarrow> Inl TypeError))
         | DictObj kvs \<Rightarrow> Inl TypeError)
      else Inl TypeError)"

text \<open>The dict object that holds a fund record.\<close>

definition obj_of_fund :: "fund_row \<Rightarrow> obj" where
  "obj_of_fund f =
     DictObj
       ((case name f of None \<Rightarrow> [] | Some n \<Rightarrow> [(''name'', VStr n)])
        @ (case industries f of None \<Rightarrow> [] | Some xs \<Rightarrow> [(''industries'', VList (map VStr xs))])
        @ (case regions f of None \<Rightarrow> [] | Some xs \<Rightarrow> [(''regions'', VList (map VStr xs))])
        @ (case revenue_focus_usd f of None \<Rightarrow> []
           | Some r \<Rightarrow> [(''revenue_focus_usd'', val_of_range r)])
        @ (case employee_focus f of None \<Rightarrow> []
           | Some r \<Rightarrow> [(''employee_focus'', val_of_range r)])
        @ (case deal_types f of None \<Rightarrow> [] | Some xs \<Rightarrow> [(''deal_types'', VList (map VStr xs))]))"

subsection \<open>The shortlist selector (matcher.py)\<close>

definition us_keywords :: "string list" where
  "us_keywords =
     [''united states'', ''usa'', ''us'', ''california'', ''texas'', ''ny'', ''new york'']"

definition canada_keywords :: "string list" where
  "canada_keywords = [''canada'', ''ontario'', ''quebec'']"

definition europe_keywords :: "string list" where
  "europe_keywords = [''uk'', ''united kingdom'', ''england'', ''london'', ''europe'']"

fun region_loop :: "string option list \<Rightarrow> string list \<Rightarrow> string list" where
  "region_loop [] reg_labels = reg_labels"
| "region_loop (loc # locs) reg_labels =
     (let t = lower (or_empty loc)
      in if list_ex (\<lambda>x. contains x t) us_keywords
           then region_loop locs (reg_labels @ [''US''])
         else if list_ex (\<lambda>x. contains x t) canada_keywords
           then region_loop locs (reg_labels @ [''Canada''])
         else if list_ex (\<lambda>x. contains x t) europe_keywords
           then region_loop locs (reg_labels @ [''Europe''])
         else region_loop locs reg_labels)"

definition derive_reg_labels :: "company_profile \<Rightarrow> string list" where
  "derive_reg_labels p = dedupe (region_loop (or_empty (prof_locations p)) [])"

definition derive_criteria :: "company_profile \<Rightarrow> criteria" where
  "derive_criteria p =
     (let industries' = or_empty (prof_industries p);
          reg_labels = derive_reg_labels p;
          rev' = or_empty (prof_revenue_range_usd p);
          emp = or_empty (prof_employee_count_range p)
      in \<lparr>crit_industries = Some industries',
          crit_regions = Some (if truthy reg_labels then reg_labels else [''US'']),
          crit_revenue_usd = (if truthy rev' then Some rev' else None),
          crit_employees = (if truthy emp then Some emp else None),
          crit_deal_type = Some ''Buyout''\<rparr>)"

definition make_entry ::
  "string list \<Rightarrow> string list \<Rightarrow> pyrange \<Rightarrow> pyrange \<Rightarrow> fund_row scored \<Rightarrow> entry" where
  \<comment> \<open>the body of the loop that attaches the rationale\<close>
  "make_entry industries' reg_labels rev' emp r =
     (let f = match r;
          reasons = [];
          reasons =
            (if truthy industries'
                \<and> set (map lower industries') \<inter> set (map lower (or_empty (industries f))) \<noteq> {}
             then reasons @ [''industry fit''] else reasons);
          reasons =
            (if truthy reg_labels
                \<and> set (map lower reg_labels) \<inter> set (map lower (or_empty (regions f))) \<noteq> {}
             then reasons @ [''region fit''] else reasons);
          reasons = (if truthy rev' then reasons @ [''revenue range compatible''] else reasons);
          reasons = (if truthy emp then reasons @ [''employee range compatible''] else reasons);
          reasons = (if truthy reasons then reasons else [''generalist flexibility''])
      in \<lparr>entry_fund = fund r, entry_score = score r,
          entry_rationale = \<lparr>summary = join '', '' reasons, rat_subscores = subscores r\<rparr>\<rparr>)"

definition threshold :: rat where
  "threshold = 2 / 10"

definition shortlist_pe_funds ::
  "company_profile \<Rightarrow> fund_row list \<Rightarrow> int \<Rightarrow> error + entry list" where
  "shortlist_pe_funds p funds top_k =
     (let industries' = or_empty (prof_industries p);
          reg_labels = derive_reg_labels p;
          rev' = or_empty (prof_revenue_range_usd p);
          emp = or_empty (prof_employee_count_range p)
      in case query_pe_db (derive_criteria p) funds of
           Inl e \<Rightarrow> Inl e
         | Inr ranked \<Rightarrow>
             (let out = map (make_entry industries' reg_labels rev' emp)
                          (slice_to (top_k * 2) ranked);
                  out = slice_to top_k (filter (\<lambda>x. threshold \<le> entry_score x) out)
              in Inr out))"

subsection \<open>Auxiliary notions of the statements\<close>

text \<open>The dict that the scoring loop appends for a fund.\<close>

definition scored_row :: "(fund_row \<Rightarrow> breakdown) \<Rightarrow> fund_row \<Rightarrow> fund_row scored" where
  "scored_row sw f =
     \<lparr>fund = or_empty (name f), score = bd_score (sw f), match = f,
      subscores = bd_subscores (sw f)\<rparr>"

text \<open>
  The entry that the shortlist selector builds from a ranked fund, for a given profile.
\<close>

definition profile_entry :: "company_profile \<Rightarrow> fund_row scored \<Rightarrow> entry" where
  "profile_entry p =
     make_entry (or_empty (prof_industries p)) (derive_reg_labels p)
       (or_empty (prof_revenue_range_usd p)) (or_empty (prof_employee_count_range p))"

text \<open>
  Whether a fund lists the region "US", and whether it lists the deal type "Buyout"
  (both compared in lower case, as the engine does).
\<close>

definition lists_us :: "fund_row \<Rightarrow> bool" where
  "lists_us f = (''us'' \<in> set (map lower (or_empty (regions f))))"

definition lists_buyout :: "fund_row \<Rightarrow> bool" where
  "lists_buyout f = (''buyout'' \<in> set (map lower (or_empty (deal_types f))))"

text \<open>
  A loaded dataset: the object at \<open>funds\<close> is the list of the references \<open>as\<close>, and each
  of them holds a fund record with a name.
\<close>

definition dataset_at :: "store \<Rightarrow> addr \<Rightarrow> addr list \<Rightarrow> bool" where
  "dataset_at h funds as =
     (funds < length h \<and> h ! funds = ListObj (map VRef as)
      \<and> list_all (\<lambda>a. case read_fund h a of None \<Rightarrow> False | Some fr \<Rightarrow> name fr \<noteq> None) as)"

definition match_of :: "val \<Rightarrow> val option" where
  "match_of r = item_of ''match'' r"

definition fund_of :: "val \<Rightarrow> val option" where
  "fund_of r = item_of ''fund'' r"

text \<open>
  A result belongs to the record its \<open>match\<close> refers to: it carries the name of that
  record and the composite score of that record.
\<close>

definition result_of_record :: "criteria \<Rightarrow> store \<Rightarrow> val \<Rightarrow> bool" where
  "result_of_record c h r =
     (case match_of r of
        Some (VRef a) \<Rightarrow>
          (case read_fund h a of
             None \<Rightarrow> False
           | Some fr \<Rightarrow>
               fund_of r = map_option VStr (name fr)
               \<and> score_of r = Some (bd_score (score_fund c fr)))
      | _ \<Rightarrow> False)"

subsection \<open>Notions of the specification\<close>

text \<open>
  The definitions of this part follow the words of the specification, not the code. A
  company range lies fully within a fund's focus range when both bounds are inside; a bound that
  either side leaves unset constrains nothing.
\<close>

definition fully_within :: "pyrange \<Rightarrow> pyrange \<Rightarrow> bool" where
  "fully_within c f_c =
     ((case (rget c ''min'', rget f_c ''min'') of
         (Some c_min, Some f_min) \<Rightarrow> f_min \<le> c_min | _ \<Rightarrow> True)
      \<and> (case (rget c ''max'', rget f_c ''max'') of
         (Some c_max, Some f_max) \<Rightarrow> c_max \<le> f_max | _ \<Rightarrow> True))"

text \<open>
  The contribution of a factor to the composite score: weight times raw score when the
  factor is applied, nothing otherwise.
\<close>

definition factor_contribution :: "subscore \<Rightarrow> rat" where
  "factor_contribution s =
     (if applied s then (case raw s of None \<Rightarrow> 0 | Some r \<Rightarrow> weight s * r) else 0)"

text \<open>
  A dataset is well formed when every record has the identifying key \<open>name\<close>.
\<close>

definition well_formed :: "fund_row list \<Rightarrow> bool" where
  "well_formed funds = list_all (\<lambda>f. name f \<noteq> None) funds"

text \<open>
  The simpler pipeline: filter the whole ranking to the scores of at least 0.2, then keep
  the first \<open>top_k\<close> entries.
\<close>

definition shortlist_full_filter ::
  "company_profile \<Rightarrow> fund_row list \<Rightarrow> int \<Rightarrow> error + entry list" where
  "shortlist_full_filter p funds top_k =
     (case query_pe_db (derive_criteria p) funds of
        Inl e \<Rightarrow> Inl e
      | Inr ranked \<Rightarrow>
          Inr (take (nat top_k)
                 (filter (\<lambda>x. threshold \<le> entry_score x) (map (profile_entry p) ranked))))"

text \<open>A profile with zero extracted fields: every field is absent or empty.\<close>

definition zero_fields :: "company_profile \<Rightarrow> bool" where
  "zero_fields p =
     (or_empty (prof_industries p) = [] \<and> or_empty (prof_locations p) = []
      \<and> or_empty (prof_revenue_range_usd p) = []
      \<and> or_empty (prof_employee_count_range p) = [])"

subsection \<open>Example data\<close>

definition empty_profile :: company_profile where
  "empty_profile = \<lparr>prof_industries = None, prof_locations = None,
                     prof_revenue_range_usd = None, prof_employee_count_range = None\<rparr>"

definition example_criteria :: criteria where
  "example_criteria = \<lparr>crit_industries = Some [''Software''], crit_regions = Some [''US''],
        crit_revenue_usd = None, crit_employees = None, crit_deal_type = Some ''Buyout''\<rparr>"

definition example_funds :: "fund_row list" where
  "example_funds =
     [\<lparr>name = Some ''A'', industries = Some [''Industrial''], regions = Some [''Europe''],
       revenue_focus_usd = None, employee_focus = None, deal_types = Some [''Growth'']\<rparr>,
      \<lparr>name = Some ''B'', industries = Some [''Software''], regions = Some [''US''],
       revenue_focus_usd = None, employee_focus = None, deal_types = Some [''Buyout'']\<rparr>,
      \<lparr>name = Some ''C'', industries = Some [''Industrial''], regions = Some [''Europe''],
       revenue_focus_usd = None, employee_focus = None, deal_types = Some [''Growth'']\<rparr>,
      \<lparr>name = Some ''D'', industries = Some [''Healthcare''], regions = Some [''us''],
       revenue_focus_usd = None, employee_focus = None, deal_types = Some [''Buyout'']\<rparr>]"

definition example_store :: store where
  "example_store = map obj_of_fund example_funds @ [ListObj (map VRef [0, 1, 2, 3])]"

section \<open>Verification\<close>

subsection \<open>The composite score stays in the unit interval\<close>

lemma py_round4_bounds:
  assumes "0 \<le> x" "x \<le> 1"
  shows "0 \<le> py_round4 x \<and> py_round4 x \<le> 1"
proof -
  define y where "y = x * 10000"
  define n where "n = \<lfloor>y\<rfloor>"
  have y: "0 \<le> y" "y \<le> 10000" using assms by (simp_all add: y_def)
  have n0: "0 \<le> n" using y by (simp add: n_def)
  have n1: "n \<le> 10000" using y unfolding n_def by (simp add: floor_le_iff) 
  have top: "n = 10000 \<Longrightarrow> y - of_int n = 0"
  proof -
    assume e: "n = 10000"
    have "of_int n \<le> y" unfolding n_def by simp
    with e y show ?thesis by simp
  qed
  define m where "m = (if y - of_int n < 1 / 2 then n
                 else if 1 / 2 < y - of_int n then n + 1
                 else if even n then n else n + 1)"
  have m: "0 \<le> m" "m \<le> 10000"
  proof -
    show "0 \<le> m" using n0 by (simp add: m_def)
    show "m \<le> 10000"
    proof (cases "n = 10000")
      case True
      then show ?thesis using top by (simp add: m_def)
    next
      case False
      with n1 have "n + 1 \<le> 10000" by simp
      then show ?thesis by (simp add: m_def)
    qed
  qed
  have "py_round4 x = of_int m / 10000"
    by (simp add: py_round4_def Let_def y_def n_def m_def)
  moreover have "(0::rat) \<le> of_int m / 10000" using m by simp
  moreover have "(of_int m :: rat) / 10000 \<le> 1" using m by simp
  ultimately show ?thesis by simp
qed

lemma industry_block_bounds:
  "t \<le> snd (industry_block inds f t) \<and> snd (industry_block inds f t) \<le> t + w_industry"
proof -
  define r :: rat where
    "r = min 1 (of_nat (card (inds \<inter> set (map lower (or_empty (industries f)))))
                  / of_nat (max 1 (card inds)))"
  have r: "0 \<le> r" "r \<le> 1" by (simp_all add: r_def)
  have "snd (industry_block inds f t) = (if inds \<noteq> {} then t + w_industry * r else t)"
    by (simp add: industry_block_def Let_def r_def)
  moreover have "0 \<le> w_industry * r" "w_industry * r \<le> w_industry"
    using r by (simp_all add: w_industry_def)
  ultimately show ?thesis by (simp add: w_industry_def)
qed

lemma region_block_bounds:
  "t \<le> snd (region_block regs f t) \<and> snd (region_block regs f t) \<le> t + w_region"
  by (simp add: region_block_def Let_def w_region_def)

lemma range_block_bounds:
  "0 \<le> w \<Longrightarrow> t \<le> snd (range_block w c f_c t) \<and> snd (range_block w c f_c t) \<le> t + w"
  by (simp add: range_block_def Let_def)

lemma deal_block_bounds:
  "t \<le> snd (deal_block d f t) \<and> snd (deal_block d f t) \<le> t + w_deal"
  by (simp add: deal_block_def Let_def w_deal_def)

lemma bd_score_eq:
  "bd_score (score_with_breakdown inds regs rev' emp deal' f) =
     py_round4 (snd (deal_block deal' f
       (snd (range_block w_employees emp (or_empty (employee_focus f))
         (snd (range_block w_revenue rev' (or_empty (revenue_focus_usd f))
           (snd (region_block regs f
             (snd (industry_block inds f 0))))))))))"
  by (simp add: score_with_breakdown_def Let_def split_beta)

lemma score_with_breakdown_bounds:
  "0 \<le> bd_score (score_with_breakdown inds regs rev' emp deal' f)
   \<and> bd_score (score_with_breakdown inds regs rev' emp deal' f) \<le> 1"
proof -
  define t1 where "t1 = snd (industry_block inds f 0)"
  define t2 where "t2 = snd (region_block regs f t1)"
  define t3 where "t3 = snd (range_block w_revenue rev' (or_empty (revenue_focus_usd f)) t2)"
  define t4 where "t4 = snd (range_block w_employees emp (or_empty (employee_focus f)) t3)"
  define t5 where "t5 = snd (deal_block deal' f t4)"
  have b1: "0 \<le> t1 \<and> t1 \<le> 4 / 10"
    using industry_block_bounds [of 0 inds f] by (simp add: t1_def w_industry_def)
  have b2: "t1 \<le> t2 \<and> t2 \<le> t1 + 2 / 10"
    using region_block_bounds [of t1 regs f] by (simp add: t2_def w_region_def)
  have b3: "t2 \<le> t3 \<and> t3 \<le> t2 + 2 / 10"
    using range_block_bounds [of w_revenue t2 rev' "or_empty (revenue_focus_usd f)"]
    by (simp add: t3_def w_revenue_def)
  have b4: "t3 \<le> t4 \<and> t4 \<le> t3 + 1 / 10"
    using range_block_bounds [of w_employees t3 emp "or_empty (employee_focus f)"]
    by (simp add: t4_def w_employees_def)
  have b5: "t4 \<le> t5 \<and> t5 \<le> t4 + 1 / 10"
    using deal_block_bounds [of t4 deal' f] by (simp add: t5_def w_deal_def)
  have "0 \<le> t5" "t5 \<le> 1" using b1 b2 b3 b4 b5 by linarith+
  then have "0 \<le> py_round4 t5 \<and> py_round4 t5 \<le> 1" by (rule py_round4_bounds)
  moreover have "bd_score (score_with_breakdown inds regs rev' emp deal' f) = py_round4 t5"
    by (simp add: bd_score_eq t1_def t2_def t3_def t4_def t5_def)
  ultimately show ?thesis by simp
qed

text \<open>
  C3. For every criteria object and every fund record, the composite score that the
  scoring engine computes lies between 0 and 1 (both included).
\<close>

theorem composite_score_in_unit_interval:
  "0 \<le> bd_score (score_fund c f) \<and> bd_score (score_fund c f) \<le> 1"
  unfolding score_fund_def by (rule score_with_breakdown_bounds)


subsection \<open>Range factors: coverage and binary fit\<close>

lemma point_range_coverage:
  "range_coverage (Some p) (Some p) (Some fmin) (Some fmax) = Some 0"
proof -
  have "min p fmax - max p fmin \<le> 0" by simp
  then have "max (0::rat) (of_int (min p fmax - max p fmin)) = 0"
    by (simp add: max_def)
  then show ?thesis by (simp add: range_coverage_def Let_def)
qed

lemma fst_range_block:
  "truthy c \<Longrightarrow> detail (fst (range_block w c f_c t)) =
     RangeDetail (if fully_within c f_c then 1 else 0)
       (range_coverage (rget c ''min'') (rget c ''max'') (rget f_c ''min'') (rget f_c ''max''))
       c f_c"
  by (simp add: range_block_def Let_def fully_within_def split: option.splits)

lemma raw_range_block:
  "truthy c \<Longrightarrow> raw (fst (range_block w c f_c t)) = Some (if fully_within c f_c then 1 else 0)"
  by (simp add: range_block_def Let_def fully_within_def split: option.splits)

lemma subscores_eq:
  "bd_subscores (score_with_breakdown inds regs rev' emp deal' f) =
     \<lparr>industry = fst (industry_block inds f 0),
      region = fst (region_block regs f (snd (industry_block inds f 0))),
      revenue = fst (range_block w_revenue rev' (or_empty (revenue_focus_usd f))
                  (snd (region_block regs f (snd (industry_block inds f 0))))),
      employees = fst (range_block w_employees emp (or_empty (employee_focus f))
                  (snd (range_block w_revenue rev' (or_empty (revenue_focus_usd f))
                    (snd (region_block regs f (snd (industry_block inds f 0))))))),
      deal = fst (deal_block deal' f
               (snd (range_block w_employees emp (or_empty (employee_focus f))
                 (snd (range_block w_revenue rev' (or_empty (revenue_focus_usd f))
                   (snd (region_block regs f (snd (industry_block inds f 0)))))))))\<rparr>"
  by (simp add: score_with_breakdown_def Let_def split_beta)

text \<open>
  C2. At the input of the claim (company range \<open>{min: 20000000, max: 20000000}\<close>, fund
  focus \<open>{min: 10000000, max: 50000000}\<close>) the revenue scorer gives \<open>binary_fit = 1\<close>,
  as the claim says, but the coverage ratio it reports is 0, where the claim has a ratio
  close to 1. The epsilon \<open>1e-9\<close> guards the division only: the intersection of a point
  interval has length 0, so every point interval gets the ratio 0. A company interval of
  length 1 inside the same focus has the ratio 1, and a point outside the focus has the
  ratio 0 as well, so the reported ratio does not tell a point inside from one outside.
\<close>

theorem point_range_coverage_divergence:
  "binary_fit (detail (revenue (bd_subscores
     (score_with_breakdown {} {} [(''min'', Some 20000000), (''max'', Some 20000000)] [] []
        \<lparr>name = Some ''F'', industries = None, regions = None,
          revenue_focus_usd = Some [(''min'', Some 10000000), (''max'', Some 50000000)],
          employee_focus = None, deal_types = None\<rparr>)))) = 1
   \<and> coverage_ratio (detail (revenue (bd_subscores
     (score_with_breakdown {} {} [(''min'', Some 20000000), (''max'', Some 20000000)] [] []
        \<lparr>name = Some ''F'', industries = None, regions = None,
          revenue_focus_usd = Some [(''min'', Some 10000000), (''max'', Some 50000000)],
          employee_focus = None, deal_types = None\<rparr>)))) = Some 0
   \<and> range_coverage (Some p) (Some p) (Some fmin) (Some fmax) = Some 0
   \<and> range_coverage (Some 20000000) (Some 20000001) (Some 10000000) (Some 50000000) = Some 1
   \<and> range_coverage (Some 60000000) (Some 60000000) (Some 10000000) (Some 50000000) = Some 0"
proof -
  have "range_coverage (Some 20000000) (Some 20000001) (Some 10000000) (Some 50000000) = Some 1"
    by (simp add: range_coverage_def Let_def)
  then show ?thesis
    by (simp add: subscores_eq fst_range_block truthy_def or_empty_def rget_def
          point_range_coverage fully_within_def)
qed

text \<open>
  C4. When the criteria hold a revenue range (a non-empty dict), the raw score of the
  revenue factor is 1 if the company's range lies fully within the fund's focus range,
  a missing bound on either side being satisfied, and 0 otherwise; likewise for the
  employee range and the fund's employee focus.
\<close>

theorem range_raw_iff_fully_within:
  "(truthy (crit_rev c) \<longrightarrow>
      raw (revenue (bd_subscores (score_fund c f)))
        = Some (if fully_within (crit_rev c) (or_empty (revenue_focus_usd f)) then 1 else 0))
   \<and> (truthy (crit_emp c) \<longrightarrow>
      raw (employees (bd_subscores (score_fund c f)))
        = Some (if fully_within (crit_emp c) (or_empty (employee_focus f)) then 1 else 0))"
  by (simp add: score_fund_def subscores_eq raw_range_block)

theorem range_raw_iff_fully_within_witness:
  "truthy (crit_rev \<lparr>crit_industries = None, crit_regions = None,
       crit_revenue_usd = Some [(''min'', Some 15000000), (''max'', Some 40000000)],
       crit_employees = Some [(''min'', Some 50), (''max'', Some 200)],
       crit_deal_type = None\<rparr>)
   \<and> truthy (crit_emp \<lparr>crit_industries = None, crit_regions = None,
       crit_revenue_usd = Some [(''min'', Some 15000000), (''max'', Some 40000000)],
       crit_employees = Some [(''min'', Some 50), (''max'', Some 200)],
       crit_deal_type = None\<rparr>)
   \<and> raw (revenue (bd_subscores (score_fund
       \<lparr>crit_industries = None, crit_regions = None,
        crit_revenue_usd = Some [(''min'', Some 15000000), (''max'', Some 40000000)],
        crit_employees = Some [(''min'', Some 50), (''max'', Some 200)],
        crit_deal_type = None\<rparr>
       \<lparr>name = Some ''F'', industries = None, regions = None,
        revenue_focus_usd = Some [(''min'', Some 10000000), (''max'', Some 50000000)],
        employee_focus = Some [(''min'', Some 100)], deal_types = None\<rparr>))) = Some 1
   \<and> raw (employees (bd_subscores (score_fund
       \<lparr>crit_industries = None, crit_regions = None,
        crit_revenue_usd = Some [(''min'', Some 15000000), (''max'', Some 40000000)],
        crit_employees = Some [(''min'', Some 50), (''max'', Some 200)],
        crit_deal_type = None\<rparr>
       \<lparr>name = Some ''F'', industries = None, regions = None,
        revenue_focus_usd = Some [(''min'', Some 10000000), (''max'', Some 50000000)],
        employee_focus = Some [(''min'', Some 100)], deal_types = None\<rparr>))) = Some 0"
  using range_raw_iff_fully_within
    [of "\<lparr>crit_industries = None, crit_regions = None,
        crit_revenue_usd = Some [(''min'', Some 15000000), (''max'', Some 40000000)],
        crit_employees = Some [(''min'', Some 50), (''max'', Some 200)],
        crit_deal_type = None\<rparr>"
       "\<lparr>name = Some ''F'', industries = None, regions = None,
        revenue_focus_usd = Some [(''min'', Some 10000000), (''max'', Some 50000000)],
        employee_focus = Some [(''min'', Some 100)], deal_types = None\<rparr>"]
  by (simp add: crit_rev_def crit_emp_def truthy_def or_empty_def fully_within_def rget_def)

subsection \<open>Absent factors\<close>

lemma industry_block_absent: "industry_block {} f t = (not_applied w_industry, t)"
  by (simp add: industry_block_def)

lemma region_block_absent: "region_block {} f t = (not_applied w_region, t)"
  by (simp add: region_block_def)

lemma range_block_absent: "\<not> truthy c \<Longrightarrow> range_block w c f_c t = (not_applied w, t)"
  by (simp add: range_block_def)

lemma deal_block_absent: "\<not> truthy d \<Longrightarrow> deal_block d f t = (not_applied w_deal, t)"
  by (simp add: deal_block_def)

lemma fst_industry_block_total: "fst (industry_block inds f t) = fst (industry_block inds f 0)"
  by (simp add: industry_block_def Let_def)

lemma fst_region_block_total: "fst (region_block regs f t) = fst (region_block regs f 0)"
  by (simp add: region_block_def Let_def)

lemma fst_range_block_total: "fst (range_block w c f_c t) = fst (range_block w c f_c 0)"
  by (simp add: range_block_def Let_def)

lemma fst_deal_block_total: "fst (deal_block d f t) = fst (deal_block d f 0)"
  by (simp add: deal_block_def Let_def)

lemma industry_block_contribution:
  "snd (industry_block inds f t) = t + factor_contribution (fst (industry_block inds f 0))"
  by (simp add: industry_block_def Let_def factor_contribution_def not_applied_def)

lemma region_block_contribution:
  "snd (region_block regs f t) = t + factor_contribution (fst (region_block regs f 0))"
  by (simp add: region_block_def Let_def factor_contribution_def not_applied_def)

lemma range_block_contribution:
  "snd (range_block w c f_c t) = t + factor_contribution (fst (range_block w c f_c 0))"
  by (simp add: range_block_def Let_def factor_contribution_def not_applied_def)

lemma deal_block_contribution:
  "snd (deal_block d f t) = t + factor_contribution (fst (deal_block d f 0))"
  by (simp add: deal_block_def Let_def factor_contribution_def not_applied_def)

lemma subscores_eq0:
  "bd_subscores (score_with_breakdown inds regs rev' emp deal' f) =
     \<lparr>industry = fst (industry_block inds f 0),
      region = fst (region_block regs f 0),
      revenue = fst (range_block w_revenue rev' (or_empty (revenue_focus_usd f)) 0),
      employees = fst (range_block w_employees emp (or_empty (employee_focus f)) 0),
      deal = fst (deal_block deal' f 0)\<rparr>"
  unfolding subscores_eq
  using fst_region_block_total [of regs f] fst_range_block_total [of _ _ _ _]
    fst_deal_block_total [of deal' f]
  by simp

lemma score_is_sum_of_contributions:
  "bd_score (score_with_breakdown inds regs rev' emp deal' f) =
     py_round4
       (factor_contribution (industry (bd_subscores (score_with_breakdown inds regs rev' emp deal' f)))
        + factor_contribution (region (bd_subscores (score_with_breakdown inds regs rev' emp deal' f)))
        + factor_contribution (revenue (bd_subscores (score_with_breakdown inds regs rev' emp deal' f)))
        + factor_contribution (employees (bd_subscores (score_with_breakdown inds regs rev' emp deal' f)))
        + factor_contribution (deal (bd_subscores (score_with_breakdown inds regs rev' emp deal' f))))"
  unfolding bd_score_eq subscores_eq0
  by (simp add: industry_block_contribution region_block_contribution
        range_block_contribution deal_block_contribution)

text \<open>
  C7. For every fund, a factor whose criterion is absent (empty industries set, empty
  regions set, absent revenue range, absent employee range, empty deal type) gets a
  subscore with \<open>applied = False\<close> and contributes exactly 0 to the composite score,
  which is the rounded sum of the contributions of the five factors.
\<close>

theorem absent_factor_contributes_zero:
  "(inds = {} \<longrightarrow>
      \<not> applied (industry (bd_subscores (score_with_breakdown inds regs rev' emp deal' f)))
      \<and> factor_contribution
          (industry (bd_subscores (score_with_breakdown inds regs rev' emp deal' f))) = 0)
   \<and> (regs = {} \<longrightarrow>
      \<not> applied (region (bd_subscores (score_with_breakdown inds regs rev' emp deal' f)))
      \<and> factor_contribution
          (region (bd_subscores (score_with_breakdown inds regs rev' emp deal' f))) = 0)
   \<and> (\<not> truthy rev' \<longrightarrow>
      \<not> applied (revenue (bd_subscores (score_with_breakdown inds regs rev' emp deal' f)))
      \<and> factor_contribution
          (revenue (bd_subscores (score_with_breakdown inds regs rev' emp deal' f))) = 0)
   \<and> (\<not> truthy emp \<longrightarrow>
      \<not> applied (employees (bd_subscores (score_with_breakdown inds regs rev' emp deal' f)))
      \<and> factor_contribution
          (employees (bd_subscores (score_with_breakdown inds regs rev' emp deal' f))) = 0)
   \<and> (\<not> truthy deal' \<longrightarrow>
      \<not> applied (deal (bd_subscores (score_with_breakdown inds regs rev' emp deal' f)))
      \<and> factor_contribution
          (deal (bd_subscores (score_with_breakdown inds regs rev' emp deal' f))) = 0)
   \<and> bd_score (score_with_breakdown inds regs rev' emp deal' f) =
     py_round4
       (factor_contribution (industry (bd_subscores (score_with_breakdown inds regs rev' emp deal' f)))
        + factor_contribution (region (bd_subscores (score_with_breakdown inds regs rev' emp deal' f)))
        + factor_contribution (revenue (bd_subscores (score_with_breakdown inds regs rev' emp deal' f)))
        + factor_contribution (employees (bd_subscores (score_with_breakdown inds regs rev' emp deal' f)))
        + factor_contribution (deal (bd_subscores (score_with_breakdown inds regs rev' emp deal' f))))"
proof -
  have "inds = {} \<Longrightarrow> fst (industry_block inds f 0) = not_applied w_industry"
    by (simp add: industry_block_absent)
  moreover have "regs = {} \<Longrightarrow> fst (region_block regs f 0) = not_applied w_region"
    by (simp add: region_block_absent)
  moreover have "\<not> truthy rev' \<Longrightarrow>
      fst (range_block w_revenue rev' (or_empty (revenue_focus_usd f)) 0) = not_applied w_revenue"
    by (simp add: range_block_absent)
  moreover have "\<not> truthy emp \<Longrightarrow>
      fst (range_block w_employees emp (or_empty (employee_focus f)) 0) = not_applied w_employees"
    by (simp add: range_block_absent)
  moreover have "\<not> truthy deal' \<Longrightarrow> fst (deal_block deal' f 0) = not_applied w_deal"
    by (simp add: deal_block_absent)
  moreover have "\<not> applied (not_applied w) \<and> factor_contribution (not_applied w) = 0" for w
    by (simp add: not_applied_def factor_contribution_def)
  ultimately show ?thesis
    using score_is_sum_of_contributions [of inds regs rev' emp deal' f]
    by (simp add: subscores_eq0)
qed

theorem absent_factor_contributes_zero_witness:
  "({}::string set) = {} \<and> \<not> truthy ([]::pyrange) \<and> \<not> truthy ([]::string)
   \<and> \<not> applied (industry (bd_subscores (score_with_breakdown {} {} [] [] []
        \<lparr>name = Some ''F'', industries = Some [''Software''], regions = Some [''US''],
         revenue_focus_usd = None, employee_focus = None, deal_types = Some [''Buyout'']\<rparr>)))
   \<and> \<not> applied (deal (bd_subscores (score_with_breakdown {} {} [] [] []
        \<lparr>name = Some ''F'', industries = Some [''Software''], regions = Some [''US''],
         revenue_focus_usd = None, employee_focus = None, deal_types = Some [''Buyout'']\<rparr>)))
   \<and> bd_score (score_with_breakdown {} {} [] [] []
        \<lparr>name = Some ''F'', industries = Some [''Software''], regions = Some [''US''],
         revenue_focus_usd = None, employee_focus = None, deal_types = Some [''Buyout'']\<rparr>) = 0"
  using absent_factor_contributes_zero [of "{}" "{}" "[]" "[]" "[]"
        "\<lparr>name = Some ''F'', industries = Some [''Software''], regions = Some [''US''],
         revenue_focus_usd = None, employee_focus = None, deal_types = Some [''Buyout'']\<rparr>"]
  by (simp add: truthy_def py_round4_def)

subsection \<open>Region derivation\<close>

lemma region_loop_san_francisco:
  "region_loop [Some ''San Francisco, California, USA''] [] = [''US'']"
  by code_simp

lemma region_loop_london: "region_loop [Some ''London, UK''] [] = [''Europe'']"
  by code_simp

lemma crit_regions_derive:
  "crit_regions (derive_criteria p) =
     Some (if truthy (derive_reg_labels p) then derive_reg_labels p else [''US''])"
  by (simp add: derive_criteria_def Let_def)

text \<open>
  C8. Region derivation: the location "San Francisco, California, USA" gives the label
  set {"US"}, the location "London, UK" gives {"Europe"}, and an empty (or absent)
  sequence of locations derives no label, so that the criteria get the default {"US"}.
\<close>

theorem region_derivation_examples:
  "set (or_empty (crit_regions (derive_criteria
      (p\<lparr>prof_locations := Some [Some ''San Francisco, California, USA'']\<rparr>)))) = {''US''}
   \<and> set (or_empty (crit_regions (derive_criteria
      (p\<lparr>prof_locations := Some [Some ''London, UK'']\<rparr>)))) = {''Europe''}
   \<and> set (or_empty (crit_regions (derive_criteria (p\<lparr>prof_locations := Some []\<rparr>)))) = {''US''}
   \<and> set (or_empty (crit_regions (derive_criteria (p\<lparr>prof_locations := None\<rparr>)))) = {''US''}
   \<and> derive_reg_labels (p\<lparr>prof_locations := Some [Some ''San Francisco, California, USA'']\<rparr>)
       = [''US'']
   \<and> derive_reg_labels (p\<lparr>prof_locations := Some [Some ''London, UK'']\<rparr>) = [''Europe'']
   \<and> derive_reg_labels (p\<lparr>prof_locations := Some []\<rparr>) = []"
  by (simp add: crit_regions_derive derive_reg_labels_def or_empty_def truthy_def
        region_loop_san_francisco region_loop_london del: region_loop.simps(2))

subsection \<open>The ranking engine\<close>

lemma mset_sorted_reverse: "mset (sorted_reverse key xs) = mset xs"
  by (simp add: sorted_reverse_def)

lemma sorted_wrt_sorted_reverse:
  "sorted_wrt (\<lambda>a b. key b \<le> key a) (sorted_reverse key xs)"
proof -
  have "sorted (map key (sort_key key (rev xs)))" by (rule sorted_sort_key)
  then have "sorted_wrt (\<lambda>a b. key a \<le> key b) (sort_key key (rev xs))"
    by (simp add: sorted_wrt_map)
  then show ?thesis by (simp add: sorted_reverse_def sorted_wrt_rev)
qed

lemma filter_sorted_reverse:
  "filter (\<lambda>r. key r = k) (sorted_reverse key xs) = filter (\<lambda>r. key r = k) xs"
proof -
  have "filter (\<lambda>r. key r = k) (sorted_reverse key xs)
          = rev (filter (\<lambda>r. key r = k) (sort_key key (rev xs)))"
    by (simp add: sorted_reverse_def rev_filter)
  also have "\<dots> = rev (filter (\<lambda>r. key r = k) (rev xs))"
    by (simp only: sort_key_stable)
  also have "\<dots> = filter (\<lambda>r. key r = k) xs"
    by (simp add: rev_filter)
  finally show ?thesis .
qed

lemma score_loop_well_formed:
  "well_formed funds \<Longrightarrow> score_loop sw funds acc = Inr (acc @ map (scored_row sw) funds)"
proof (induction funds arbitrary: acc)
  case Nil
  then show ?case by simp
next
  case (Cons f funds)
  from Cons.prems obtain n where n: "name f = Some n" and wf: "well_formed funds"
    by (auto simp: well_formed_def)
  show ?case
    using Cons.IH [OF wf] n by (simp add: Let_def scored_row_def or_empty_def)
qed

lemma score_loop_ill_formed:
  "\<not> well_formed funds \<Longrightarrow> score_loop sw funds acc = Inl (KeyError ''name'')"
proof (induction funds arbitrary: acc)
  case Nil
  then show ?case by (simp add: well_formed_def)
next
  case (Cons f funds)
  then show ?case by (cases "name f") (auto simp: well_formed_def Let_def)
qed

lemma query_pe_db_well_formed:
  "well_formed funds \<Longrightarrow>
     query_pe_db c funds = Inr (sorted_reverse score (map (scored_row (score_fund c)) funds))"
  using score_loop_well_formed [of funds "score_fund c" "[]"]
  by (simp add: query_pe_db_def)

lemma query_pe_db_ill_formed:
  "\<not> well_formed funds \<Longrightarrow> query_pe_db c funds = Inl (KeyError ''name'')"
  by (simp add: query_pe_db_def score_loop_ill_formed)

lemma match_scored_row: "map match (map (scored_row sw) funds) = funds"
  by (induction funds) (simp_all add: scored_row_def)

lemma set_sorted_reverse: "set (sorted_reverse key xs) = set xs"
  by (simp add: sorted_reverse_def)

lemma well_formed_example_funds: "well_formed example_funds"
  by (simp add: well_formed_def example_funds_def)

text \<open>
  C5. For every criteria and every well-formed dataset the ranking engine returns all
  funds (the results are a rearrangement of the list \<open>scored\<close>, which holds one result
  per fund in dataset order), sorted by descending score, and the results of any one
  score appear in the order they have in the dataset: the sort is stable.
\<close>

theorem ranking_sorted_descending_stable:
  assumes "well_formed funds"
  shows "\<exists>scored ranked.
           score_loop (score_fund c) funds [] = Inr scored
           \<and> query_pe_db c funds = Inr ranked
           \<and> map match scored = funds
           \<and> mset ranked = mset scored
           \<and> sorted_wrt (\<lambda>a b. score b \<le> score a) ranked
           \<and> (\<forall>k. filter (\<lambda>r. score r = k) ranked = filter (\<lambda>r. score r = k) scored)"
proof -
  define scored where "scored = map (scored_row (score_fund c)) funds"
  define ranked where "ranked = sorted_reverse score scored"
  have "score_loop (score_fund c) funds [] = Inr scored"
    using score_loop_well_formed [OF assms, of "score_fund c" "[]"] by (simp add: scored_def)
  moreover have "query_pe_db c funds = Inr ranked"
    using query_pe_db_well_formed [OF assms] by (simp add: ranked_def scored_def)
  moreover have "map match scored = funds"
    unfolding scored_def by (rule match_scored_row)
  moreover have "mset ranked = mset scored"
    unfolding ranked_def by (rule mset_sorted_reverse)
  moreover have "sorted_wrt (\<lambda>a b. score b \<le> score a) ranked"
    unfolding ranked_def by (rule sorted_wrt_sorted_reverse)
  moreover have "\<forall>k. filter (\<lambda>r. score r = k) ranked = filter (\<lambda>r. score r = k) scored"
    unfolding ranked_def by (simp add: filter_sorted_reverse)
  ultimately show ?thesis by blast
qed

theorem ranking_sorted_descending_stable_witness:
  "well_formed example_funds
   \<and> map_sum id (map fund) (query_pe_db example_criteria example_funds)
       = Inr [''B'', ''D'', ''A'', ''C'']
   \<and> (\<exists>scored ranked.
           score_loop (score_fund example_criteria) example_funds [] = Inr scored
           \<and> query_pe_db example_criteria example_funds = Inr ranked
           \<and> map match scored = example_funds
           \<and> mset ranked = mset scored
           \<and> sorted_wrt (\<lambda>a b. score b \<le> score a) ranked
           \<and> (\<forall>k. filter (\<lambda>r. score r = k) ranked = filter (\<lambda>r. score r = k) scored))"
proof -
  have "map_sum id (map fund) (query_pe_db example_criteria example_funds)
          = Inr [''B'', ''D'', ''A'', ''C'']"
    by code_simp
  then show ?thesis
    using ranking_sorted_descending_stable [OF well_formed_example_funds, of example_criteria]
      well_formed_example_funds
    by simp
qed

subsection \<open>The shortlist selector\<close>

lemma entry_score_make_entry [simp]: "entry_score (make_entry i r v e x) = score x"
  by (simp add: make_entry_def Let_def)

lemma entry_score_profile_entry [simp]: "entry_score (profile_entry p x) = score x"
  by (simp add: profile_entry_def)

lemma shortlist_pe_funds_eq:
  "shortlist_pe_funds p funds top_k =
     (case query_pe_db (derive_criteria p) funds of
        Inl e \<Rightarrow> Inl e
      | Inr ranked \<Rightarrow>
          Inr (slice_to top_k (map (profile_entry p)
                 (filter (\<lambda>r. threshold \<le> score r) (slice_to (top_k * 2) ranked)))))"
  by (simp add: shortlist_pe_funds_def Let_def profile_entry_def filter_map comp_def
        split: sum.splits)

lemma filter_sorted_descending:
  fixes key :: "'a \<Rightarrow> 'k::linorder"
  shows "sorted_wrt (\<lambda>a b. key b \<le> key a) xs \<Longrightarrow>
     filter (\<lambda>x. t \<le> key x) xs = takeWhile (\<lambda>x. t \<le> key x) xs"
proof (induction xs)
  case Nil
  then show ?case by simp
next
  case (Cons x xs)
  show ?case
  proof (cases "t \<le> key x")
    case True
    with Cons show ?thesis by simp
  next
    case False
    have "\<not> t \<le> key y" if "y \<in> set xs" for y
    proof -
      from Cons.prems that have "key y \<le> key x" by simp
      with False show ?thesis by simp
    qed
    then have "filter (\<lambda>x. t \<le> key x) xs = []" by (simp add: filter_empty_conv)
    with False show ?thesis by simp
  qed
qed

lemma takeWhile_take_commute: "takeWhile P (take n xs) = take n (takeWhile P xs)"
proof (induction xs arbitrary: n)
  case Nil
  then show ?case by simp
next
  case (Cons x xs)
  then show ?case by (cases n) simp_all
qed

lemma sorted_wrt_take: "sorted_wrt R xs \<Longrightarrow> sorted_wrt R (take n xs)"
proof (induction xs arbitrary: n)
  case Nil
  then show ?case by simp
next
  case (Cons x xs)
  then show ?case by (cases n) (auto dest: in_set_takeD)
qed

lemma overfetch_filter:
  fixes key :: "'a \<Rightarrow> 'k::linorder"
  assumes "sorted_wrt (\<lambda>a b. key b \<le> key a) xs" and "0 \<le> k"
  shows "slice_to k (map g (filter (\<lambda>x. t \<le> key x) (slice_to (k * 2) xs)))
           = take (nat k) (map g (filter (\<lambda>x. t \<le> key x) xs))"
proof -
  have s: "sorted_wrt (\<lambda>a b. key b \<le> key a) (take (nat (k * 2)) xs)"
    using assms(1) by (rule sorted_wrt_take)
  have "filter (\<lambda>x. t \<le> key x) (take (nat (k * 2)) xs)
          = take (nat (k * 2)) (filter (\<lambda>x. t \<le> key x) xs)"
    by (simp add: filter_sorted_descending [OF s] filter_sorted_descending [OF assms(1)]
          takeWhile_take_commute)
  moreover have "min (nat k) (nat (k * 2)) = nat k" using assms(2) by simp
  ultimately show ?thesis
    using assms(2) by (simp add: slice_to_def take_map)
qed

lemma sorted_query_pe_db:
  "query_pe_db c funds = Inr ranked \<Longrightarrow> sorted_wrt (\<lambda>a b. score b \<le> score a) ranked"
  by (auto simp: query_pe_db_def sorted_wrt_sorted_reverse split: sum.splits)

lemma shortlist_overfetch_general:
  "0 \<le> top_k \<Longrightarrow> shortlist_pe_funds p funds top_k = shortlist_full_filter p funds top_k"
  by (auto simp: shortlist_pe_funds_eq shortlist_full_filter_def filter_map comp_def
        overfetch_filter [OF sorted_query_pe_db] split: sum.splits)

text \<open>
  C9. For every profile, dataset and \<open>top_k\<close> of at least 1, the over-fetch pipeline
  (the first \<open>2 * top_k\<close> ranked funds, filtered to the scores of at least 0.2, cut to
  \<open>top_k\<close>) returns the same result as filtering the whole ranking and keeping its first
  \<open>top_k\<close> entries: the ranking is sorted by descending score, so the funds that pass the
  threshold are a prefix of it. In particular the shortlist is never shorter.
\<close>

theorem overfetch_equals_full_filter:
  "1 \<le> top_k \<Longrightarrow> shortlist_pe_funds p funds top_k = shortlist_full_filter p funds top_k"
  by (rule shortlist_overfetch_general) simp

theorem overfetch_equals_full_filter_witness:
  "(1::int) \<le> 1
   \<and> shortlist_pe_funds empty_profile example_funds 1
       = shortlist_full_filter empty_profile example_funds 1
   \<and> map_sum id (map entry_fund) (shortlist_full_filter empty_profile example_funds 1)
       = Inr [''B'']"
proof -
  have "map_sum id (map entry_fund) (shortlist_full_filter empty_profile example_funds 1)
          = Inr [''B'']"
    by code_simp
  then show ?thesis
    using overfetch_equals_full_filter [of 1 empty_profile example_funds] by simp
qed

text \<open>
  C6, as stated, fails for a negative \<open>top_k\<close>: Python's slices then count from the
  end, and with \<open>top_k = -1\<close> the four example funds give a shortlist of one entry,
  which is longer than \<open>top_k\<close>.
\<close>

theorem shortlist_negative_top_k_counterexample:
  "map_sum id (map entry_fund) (shortlist_pe_funds empty_profile example_funds (- 1))
     = Inr [''B'']
   \<and> \<not> int (length [''B'']) \<le> - 1"
  by code_simp

lemma subseq_slice_to: "subseq (slice_to n xs) xs"
  by (simp add: slice_to_def prefix_imp_subseq take_is_prefix)

lemma set_slice_to: "set (slice_to n xs) \<subseteq> set xs"
  by (simp add: slice_to_def set_take_subset)

lemma length_slice_to: "0 \<le> n \<Longrightarrow> int (length (slice_to n xs)) \<le> n"
  by (simp add: slice_to_def)

text \<open>
  C6, amended. For every profile, well-formed dataset and \<open>top_k\<close>, every entry of the
  shortlist has a score of at least 0.2 and the shortlist is a subsequence of the
  ranking restricted to the scores of at least 0.2 (in the ranking's order); for every
  \<open>top_k\<close> that is not negative its length is at most \<open>top_k\<close>.
\<close>

theorem shortlist_bounded_thresholded_subsequence:
  assumes "well_formed funds"
  shows "\<exists>ranked out.
           query_pe_db (derive_criteria p) funds = Inr ranked
           \<and> shortlist_pe_funds p funds top_k = Inr out
           \<and> (0 \<le> top_k \<longrightarrow> int (length out) \<le> top_k)
           \<and> (\<forall>e \<in> set out. threshold \<le> entry_score e)
           \<and> subseq out (map (profile_entry p) (filter (\<lambda>r. threshold \<le> score r) ranked))"
proof -
  define ranked where
    "ranked = sorted_reverse score (map (scored_row (score_fund (derive_criteria p))) funds)"
  define kept where "kept = filter (\<lambda>r. threshold \<le> score r) (slice_to (top_k * 2) ranked)"
  define out where "out = slice_to top_k (map (profile_entry p) kept)"
  have q: "query_pe_db (derive_criteria p) funds = Inr ranked"
    using query_pe_db_well_formed [OF assms] by (simp add: ranked_def)
  have s: "shortlist_pe_funds p funds top_k = Inr out"
    by (simp add: shortlist_pe_funds_eq q out_def kept_def)
  have len: "0 \<le> top_k \<longrightarrow> int (length out) \<le> top_k"
    by (simp add: out_def length_slice_to)
  have "subseq out (map (profile_entry p) kept)"
    unfolding out_def by (rule subseq_slice_to)
  have "set out \<subseteq> set (map (profile_entry p) kept)"
    unfolding out_def by (rule set_slice_to)
  then have thr: "\<forall>e \<in> set out. threshold \<le> entry_score e"
    by (auto simp: kept_def)
  have "subseq kept (filter (\<lambda>r. threshold \<le> score r) ranked)"
    unfolding kept_def by (simp add: subseq_slice_to)
  then have "subseq (map (profile_entry p) kept)
               (map (profile_entry p) (filter (\<lambda>r. threshold \<le> score r) ranked))"
    by (rule subseq_map)
  with \<open>subseq out (map (profile_entry p) kept)\<close>
  have sub: "subseq out (map (profile_entry p) (filter (\<lambda>r. threshold \<le> score r) ranked))"
    by (rule subseq_order.trans)
  from q s len thr sub show ?thesis by blast
qed

theorem shortlist_bounded_thresholded_subsequence_witness:
  "well_formed example_funds
   \<and> map_sum id (map entry_fund) (shortlist_pe_funds empty_profile example_funds 2)
       = Inr [''B'', ''D'']
   \<and> (\<exists>ranked out.
           query_pe_db (derive_criteria empty_profile) example_funds = Inr ranked
           \<and> shortlist_pe_funds empty_profile example_funds 2 = Inr out
           \<and> int (length out) \<le> 2
           \<and> (\<forall>e \<in> set out. threshold \<le> entry_score e)
           \<and> subseq out (map (profile_entry empty_profile)
                            (filter (\<lambda>r. threshold \<le> score r) ranked)))"
proof -
  have "map_sum id (map entry_fund) (shortlist_pe_funds empty_profile example_funds 2)
          = Inr [''B'', ''D'']"
    by code_simp
  then show ?thesis
    using shortlist_bounded_thresholded_subsequence
            [OF well_formed_example_funds, of empty_profile 2]
      well_formed_example_funds
    by simp
qed

subsection \<open>A profile with zero extracted fields\<close>

text \<open>
  C1, as stated, fails: the criteria of a profile with zero extracted fields are not
  degenerate, since the region defaults to "US" and the deal type is always "Buyout".
  With the example funds the region factor is applied, two funds score 0.3 and the
  shortlist holds both.
\<close>

theorem empty_profile_counterexample:
  "zero_fields empty_profile
   \<and> map_sum id (map entry_fund) (shortlist_pe_funds empty_profile example_funds 5)
       = Inr [''B'', ''D'']
   \<and> map_sum id (map entry_score) (shortlist_pe_funds empty_profile example_funds 5)
       = Inr [3 / 10, 3 / 10]
   \<and> map_sum id (map (applied \<circ> region \<circ> rat_subscores \<circ> entry_rationale))
        (shortlist_pe_funds empty_profile example_funds 5) = Inr [True, True]"
  by code_simp

lemma derive_criteria_fields:
  "crit_industries (derive_criteria p) = Some (or_empty (prof_industries p))"
  "crit_revenue_usd (derive_criteria p) =
     (if truthy (or_empty (prof_revenue_range_usd p))
      then Some (or_empty (prof_revenue_range_usd p)) else None)"
  "crit_employees (derive_criteria p) =
     (if truthy (or_empty (prof_employee_count_range p))
      then Some (or_empty (prof_employee_count_range p)) else None)"
  "crit_deal_type (derive_criteria p) = Some ''Buyout''"
  by (simp_all add: derive_criteria_def Let_def)

lemma derive_criteria_zero_fields:
  assumes "zero_fields p"
  shows "crit_inds (derive_criteria p) = {}"
    and "crit_regs (derive_criteria p) = {''us''}"
    and "crit_rev (derive_criteria p) = []"
    and "crit_emp (derive_criteria p) = []"
    and "crit_deal (derive_criteria p) = ''buyout''"
proof -
  have l: "lower ''US'' = ''us''" "lower ''Buyout'' = ''buyout''" by code_simp+
  have r: "derive_reg_labels p = []"
    using assms by (simp add: derive_reg_labels_def zero_fields_def)
  show "crit_inds (derive_criteria p) = {}"
    using assms by (simp add: crit_inds_def derive_criteria_fields zero_fields_def or_empty_def)
  show "crit_regs (derive_criteria p) = {''us''}"
    using r l by (simp add: crit_regs_def crit_regions_derive truthy_def or_empty_def)
  show "crit_rev (derive_criteria p) = []"
    using assms by (simp add: crit_rev_def derive_criteria_fields zero_fields_def truthy_def or_empty_def)
  show "crit_emp (derive_criteria p) = []"
    using assms by (simp add: crit_emp_def derive_criteria_fields zero_fields_def truthy_def or_empty_def)
  show "crit_deal (derive_criteria p) = ''buyout''"
    using l by (simp add: crit_deal_def derive_criteria_fields or_empty_def)
qed

lemma py_round4_tenths:
  "py_round4 0 = 0" "py_round4 (1 / 10) = 1 / 10" "py_round4 (1 / 5) = 1 / 5"
  "py_round4 (3 / 10) = 3 / 10"
  by (simp_all add: py_round4_def Let_def)

lemma score_fund_zero_fields:
  assumes "zero_fields p"
  shows "bd_score (score_fund (derive_criteria p) f) =
           (if lists_us f then 2 / 10 else 0) + (if lists_buyout f then 1 / 10 else 0)"
    and "\<not> applied (industry (bd_subscores (score_fund (derive_criteria p) f)))"
    and "applied (region (bd_subscores (score_fund (derive_criteria p) f)))"
    and "\<not> applied (revenue (bd_subscores (score_fund (derive_criteria p) f)))"
    and "\<not> applied (employees (bd_subscores (score_fund (derive_criteria p) f)))"
    and "applied (deal (bd_subscores (score_fund (derive_criteria p) f)))"
proof -
  note d = derive_criteria_zero_fields [OF assms]
  have c: "0 < card ({''us''} \<inter> set (map lower (or_empty (regions f)))) \<longleftrightarrow> lists_us f"
    by (simp add: lists_us_def card_gt_0_iff)
  show "bd_score (score_fund (derive_criteria p) f) =
           (if lists_us f then 2 / 10 else 0) + (if lists_buyout f then 1 / 10 else 0)"
    unfolding score_fund_def d bd_score_eq
    using c
    by (simp add: industry_block_def region_block_def range_block_def deal_block_def
          truthy_def Let_def w_region_def w_deal_def lists_buyout_def py_round4_tenths)
  show "\<not> applied (industry (bd_subscores (score_fund (derive_criteria p) f)))"
    unfolding score_fund_def d subscores_eq0
    by (simp add: industry_block_def not_applied_def)
  show "applied (region (bd_subscores (score_fund (derive_criteria p) f)))"
    unfolding score_fund_def d subscores_eq0
    by (simp add: region_block_def Let_def)
  show "\<not> applied (revenue (bd_subscores (score_fund (derive_criteria p) f)))"
    unfolding score_fund_def d subscores_eq0
    by (simp add: range_block_def truthy_def not_applied_def)
  show "\<not> applied (employees (bd_subscores (score_fund (derive_criteria p) f)))"
    unfolding score_fund_def d subscores_eq0
    by (simp add: range_block_def truthy_def not_applied_def)
  show "applied (deal (bd_subscores (score_fund (derive_criteria p) f)))"
    unfolding score_fund_def d subscores_eq0
    by (simp add: deal_block_def truthy_def Let_def)
qed

lemma take_eq_Nil_pos: "0 < n \<Longrightarrow> take n xs = [] \<longleftrightarrow> xs = []"
  by (cases xs) simp_all

text \<open>
  C1, amended. For every well-formed dataset, a profile with zero extracted fields yields
  a ranking and a shortlist, not an error. The industry, revenue and employees factors
  are not applied; the region factor (default "US") and the deal factor ("Buyout") are
  applied, so the score of a fund is 0.2 if it lists the US region plus 0.1 if it lists
  the buyout deal type. Every shortlist entry has a score of at least 0.2, and for
  \<open>top_k\<close> of at least 1 the shortlist is empty exactly when no fund of the dataset lists
  the US region.
\<close>

theorem zero_field_profile_shortlist:
  assumes "well_formed funds" and "zero_fields p"
  shows "\<exists>ranked out.
           query_pe_db (derive_criteria p) funds = Inr ranked
           \<and> shortlist_pe_funds p funds top_k = Inr out
           \<and> mset (map match ranked) = mset funds
           \<and> (\<forall>r \<in> set ranked.
                 \<not> applied (industry (subscores r)) \<and> applied (region (subscores r))
                 \<and> \<not> applied (revenue (subscores r)) \<and> \<not> applied (employees (subscores r))
                 \<and> applied (deal (subscores r))
                 \<and> score r = (if lists_us (match r) then 2 / 10 else 0)
                              + (if lists_buyout (match r) then 1 / 10 else 0))
           \<and> (\<forall>e \<in> set out. threshold \<le> entry_score e)
           \<and> (1 \<le> top_k \<longrightarrow> (out = [] \<longleftrightarrow> (\<forall>f \<in> set funds. \<not> lists_us f)))"
proof -
  define sw where "sw = score_fund (derive_criteria p)"
  define scored where "scored = map (scored_row sw) funds"
  define ranked where "ranked = sorted_reverse score scored"
  define kept where "kept = filter (\<lambda>r. threshold \<le> score r) (slice_to (top_k * 2) ranked)"
  define out where "out = slice_to top_k (map (profile_entry p) kept)"
  note z = score_fund_zero_fields [OF assms(2)]
  have q: "query_pe_db (derive_criteria p) funds = Inr ranked"
    using query_pe_db_well_formed [OF assms(1)] by (simp add: ranked_def scored_def sw_def)
  have s: "shortlist_pe_funds p funds top_k = Inr out"
    by (simp add: shortlist_pe_funds_eq q out_def kept_def)
  have "mset (map match ranked) = mset (map match scored)"
    by (simp add: ranked_def mset_sorted_reverse)
  also have "map match scored = funds"
    unfolding scored_def by (rule match_scored_row)
  finally have perm: "mset (map match ranked) = mset funds" .
  have rows: "set ranked = scored_row sw ` set funds"
    by (simp add: ranked_def set_sorted_reverse scored_def)
  have row: "\<not> applied (industry (subscores r)) \<and> applied (region (subscores r))
             \<and> \<not> applied (revenue (subscores r)) \<and> \<not> applied (employees (subscores r))
             \<and> applied (deal (subscores r))
             \<and> score r = (if lists_us (match r) then 2 / 10 else 0)
                          + (if lists_buyout (match r) then 1 / 10 else 0)"
    if "r \<in> set ranked" for r
  proof -
    from that rows obtain f where "r = scored_row sw f" by auto
    then show ?thesis using z [of f] by (simp add: scored_row_def sw_def)
  qed
  have "set out \<subseteq> set (map (profile_entry p) kept)"
    unfolding out_def by (rule set_slice_to)
  then have thr: "\<forall>e \<in> set out. threshold \<le> entry_score e"
    by (auto simp: kept_def)
  have clears: "threshold \<le> score (scored_row sw f) \<longleftrightarrow> lists_us f" for f
    using z(1) [of f] by (simp add: scored_row_def sw_def threshold_def)
  have empty: "out = [] \<longleftrightarrow> (\<forall>f \<in> set funds. \<not> lists_us f)" if k: "1 \<le> top_k"
  proof -
    from k have "0 \<le> top_k" by simp
    then have "shortlist_pe_funds p funds top_k = shortlist_full_filter p funds top_k"
      by (rule shortlist_overfetch_general)
    with s q have "out = take (nat top_k)
        (filter (\<lambda>x. threshold \<le> entry_score x) (map (profile_entry p) ranked))"
      by (simp add: shortlist_full_filter_def)
    moreover from k have "0 < nat top_k" by simp
    ultimately have "out = [] \<longleftrightarrow>
        filter (\<lambda>x. threshold \<le> entry_score x) (map (profile_entry p) ranked) = []"
      by (simp add: take_eq_Nil_pos)
    also have "\<dots> \<longleftrightarrow> (\<forall>r \<in> set ranked. \<not> threshold \<le> score r)"
      by (simp add: filter_empty_conv)
    also have "\<dots> \<longleftrightarrow> (\<forall>f \<in> set funds. \<not> lists_us f)"
      by (simp add: rows clears)
    finally show ?thesis .
  qed
  from q s perm row thr empty show ?thesis by blast
qed

theorem zero_field_profile_shortlist_witness:
  "well_formed example_funds \<and> zero_fields empty_profile
   \<and> map_sum id (map entry_fund) (shortlist_pe_funds empty_profile example_funds 1)
       = Inr [''B'']
   \<and> (\<exists>ranked out.
           query_pe_db (derive_criteria empty_profile) example_funds = Inr ranked
           \<and> shortlist_pe_funds empty_profile example_funds 1 = Inr out
           \<and> mset (map match ranked) = mset example_funds
           \<and> (\<forall>r \<in> set ranked.
                 \<not> applied (industry (subscores r)) \<and> applied (region (subscores r))
                 \<and> \<not> applied (revenue (subscores r)) \<and> \<not> applied (employees (subscores r))
                 \<and> applied (deal (subscores r))
                 \<and> score r = (if lists_us (match r) then 2 / 10 else 0)
                              + (if lists_buyout (match r) then 1 / 10 else 0))
           \<and> (\<forall>e \<in> set out. threshold \<le> entry_score e)
           \<and> (out = [] \<longleftrightarrow> (\<forall>f \<in> set example_funds. \<not> lists_us f)))"
proof -
  have z: "zero_fields empty_profile"
    by (simp add: zero_fields_def empty_profile_def or_empty_def)
  have "map_sum id (map entry_fund) (shortlist_pe_funds empty_profile example_funds 1)
          = Inr [''B'']"
    by code_simp
  then show ?thesis
    using zero_field_profile_shortlist [OF well_formed_example_funds z, of 1]
      well_formed_example_funds z
    by simp
qed

subsection \<open>Scoring does not write the fund records\<close>

text \<open>
  The two writing operations do change the object at the address they are given, a fund
  record included: an item assignment at the address of the first example fund changes
  the record read there. That the engine leaves the fund records alone is therefore a
  property of the addresses it writes to.
\<close>

lemma setitem_writes_fund_record:
  "map_sum id (\<lambda>h'. map_option name (read_fund h' 0))
     (setitem example_store 0 ''name'' (VStr ''X'')) = Inr (Some (Some ''X''))
   \<and> map_option name (read_fund example_store 0) = Some (Some ''A'')"
  by code_simp

lemma read_fund_Some_less: "read_fund h a = Some fr \<Longrightarrow> a < length h"
  by (simp add: read_fund_def split: if_splits)

lemma read_fund_same_object:
  "a < length h \<Longrightarrow> a < length g \<Longrightarrow> g ! a = h ! a \<Longrightarrow> read_fund g a = read_fund h a"
  by (simp add: read_fund_def)

lemma nth_of_take_eq:
  assumes "take n g = take n h" and "a < n"
  shows "g ! a = h ! a"
proof -
  have "take n g ! a = take n h ! a" using assms(1) by simp
  then show ?thesis using assms(2) by simp
qed

lemma read_fund_extends:
  assumes "take (length h) g = h" and "read_fund h a = Some fr"
  shows "read_fund g a = Some fr"
proof -
  have a: "a < length h" using assms(2) by (rule read_fund_Some_less)
  have l: "length h \<le> length g"
    using assms(1) by (metis length_take min.cobounded1)
  have "take (length h) g = take (length h) h" using assms(1) by simp
  then have "g ! a = h ! a" using a by (rule nth_of_take_eq)
  moreover have "a < length g" using a l by simp
  ultimately have "read_fund g a = read_fund h a"
    using a by (simp add: read_fund_def)
  with assms(2) show ?thesis by simp
qed

lemma read_fund_fresh:
  assumes "read_fund h f = Some fr"
  shows "read_fund (h @ [ob]) f = Some fr"
  by (rule read_fund_extends [OF _ assms]) simp

lemma setitem_fresh:
  "setitem (h @ [DictObj kvs]) (length h) key v = Inr (h @ [DictObj (dict_set key v kvs)])"
  by (simp add: setitem_def)

lemma block_st_fresh:
  assumes "read_fund h f = Some fr"
  shows "block_st blk key (h @ [DictObj kvs]) f (length h) t =
           Inr (h @ [DictObj (dict_set key (val_of_subscore (fst (blk fr t))) kvs)],
                snd (blk fr t))"
proof (cases "blk fr t")
  case (Pair s t')
  then show ?thesis
    unfolding block_st_def
    by (simp add: read_fund_fresh [OF assms] setitem_fresh)
qed

lemma score_with_breakdown_st_fresh:
  assumes "read_fund h f = Some fr"
  shows "\<exists>kvs. score_with_breakdown_st inds regs rev' emp deal' h f =
           Inr (h @ [DictObj kvs],
                bd_score (score_with_breakdown inds regs rev' emp deal' fr), length h)"
proof -
  note b = block_st_fresh [OF assms]
  define t1 where "t1 = snd (industry_block inds fr 0)"
  define t2 where "t2 = snd (region_block regs fr t1)"
  define t3 where "t3 = snd (range_block w_revenue rev' (or_empty (revenue_focus_usd fr)) t2)"
  define t4 where "t4 = snd (range_block w_employees emp (or_empty (employee_focus fr)) t3)"
  define t5 where "t5 = snd (deal_block deal' fr t4)"
  have s: "bd_score (score_with_breakdown inds regs rev' emp deal' fr) = py_round4 t5"
    by (simp add: bd_score_eq t1_def t2_def t3_def t4_def t5_def)
  obtain k1 where 1: "block_st (industry_block inds) ''industry'' (h @ [DictObj []]) f (length h) 0
      = Inr (h @ [DictObj k1], t1)"
    using b [of "industry_block inds" "''industry''" "[]" 0] by (simp add: t1_def)
  obtain k2 where 2: "block_st (region_block regs) ''region'' (h @ [DictObj k1]) f (length h) t1
      = Inr (h @ [DictObj k2], t2)"
    using b [of "region_block regs" "''region''" k1 t1] by (simp add: t2_def)
  obtain k3 where 3: "block_st (\<lambda>fr. range_block w_revenue rev' (or_empty (revenue_focus_usd fr)))
      ''revenue'' (h @ [DictObj k2]) f (length h) t2 = Inr (h @ [DictObj k3], t3)"
    using b [of "\<lambda>fr. range_block w_revenue rev' (or_empty (revenue_focus_usd fr))"
               "''revenue''" k2 t2] by (simp add: t3_def)
  obtain k4 where 4: "block_st (\<lambda>fr. range_block w_employees emp (or_empty (employee_focus fr)))
      ''employees'' (h @ [DictObj k3]) f (length h) t3 = Inr (h @ [DictObj k4], t4)"
    using b [of "\<lambda>fr. range_block w_employees emp (or_empty (employee_focus fr))"
               "''employees''" k3 t3] by (simp add: t4_def)
  obtain k5 where 5: "block_st (deal_block deal') ''deal'' (h @ [DictObj k4]) f (length h) t4
      = Inr (h @ [DictObj k5], t5)"
    using b [of "deal_block deal'" "''deal''" k4 t4] by (simp add: t5_def)
  have "score_with_breakdown_st inds regs rev' emp deal' h f
          = Inr (h @ [DictObj k5], py_round4 t5, length h)"
    unfolding score_with_breakdown_st_def alloc_def
    by (simp add: 1 2 3 4 5)
  with s show ?thesis by auto
qed

lemma list_append_at:
  "a < length h \<Longrightarrow> h ! a = ListObj vs \<Longrightarrow>
     list_append h a v = Inr (h[a := ListObj (vs @ [v])])"
  by (simp add: list_append_def)

lemma result_val_items:
  "match_of (result_val n sc f subs) = Some (VRef f)"
  "fund_of (result_val n sc f subs) = Some (VStr n)"
  "score_of (result_val n sc f subs) = Some sc"
  by (simp_all add: match_of_def fund_of_def score_of_def result_val_def)

lemma score_loop_st_step:
  assumes e: "take (length h) g = h" and s: "length h \<le> scored" "scored < length g"
    and l: "g ! scored = ListObj rs"
    and r: "read_fund h a = Some fr" and n: "name fr = Some n"
  shows "\<exists>g2 v. score_loop_st c g (VRef a # vs) scored = score_loop_st c g2 vs scored
           \<and> take (length h) g2 = h \<and> scored < length g2
           \<and> g2 ! scored = ListObj (rs @ [v])
           \<and> match_of v = Some (VRef a) \<and> result_of_record c h v"
proof -
  have rg: "read_fund g a = Some fr" using e r by (rule read_fund_extends)
  obtain kvs where sw:
    "score_with_breakdown_st (crit_inds c) (crit_regs c) (crit_rev c) (crit_emp c) (crit_deal c) g a
       = Inr (g @ [DictObj kvs], bd_score (score_fund c fr), length g)"
    using score_with_breakdown_st_fresh [OF rg] unfolding score_fund_def by blast
  define g1 where "g1 = g @ [DictObj kvs]"
  define v where "v = result_val n (bd_score (score_fund c fr)) a (length g)"
  define g2 where "g2 = g1[scored := ListObj (rs @ [v])]"
  have r1: "read_fund g1 a = Some fr" unfolding g1_def using rg by (rule read_fund_fresh)
  have s1: "scored < length g1" using s(2) by (simp add: g1_def)
  have l1: "g1 ! scored = ListObj rs" using s(2) l by (simp add: g1_def nth_append)
  have ap: "list_append g1 scored v = Inr g2"
    unfolding g2_def using s1 l1 by (rule list_append_at)
  have step: "score_loop_st c g (VRef a # vs) scored = score_loop_st c g2 vs scored"
    using sw r1 n ap by (simp add: g1_def v_def)
  have "take (length h) g2 = take (length h) g1"
    unfolding g2_def using s(1) by (rule take_update_cancel)
  also have "\<dots> = take (length h) g" using s by (simp add: g1_def)
  finally have e2: "take (length h) g2 = h" using e by simp
  have s2: "scored < length g2" using s1 by (simp add: g2_def)
  have l2: "g2 ! scored = ListObj (rs @ [v])" using s1 by (simp add: g2_def)
  have m: "match_of v = Some (VRef a)" by (simp add: v_def result_val_items)
  have ok: "result_of_record c h v"
    using r n by (simp add: result_of_record_def v_def result_val_items)
  from step e2 s2 l2 m ok show ?thesis by blast
qed

lemma score_loop_st_frame:
  assumes "take (length h) g = h" and "length h \<le> scored" and "scored < length g"
    and "g ! scored = ListObj rs"
    and "list_all (\<lambda>a. case read_fund h a of None \<Rightarrow> False | Some fr \<Rightarrow> name fr \<noteq> None) as"
  shows "\<exists>g' new. score_loop_st c g (map VRef as) scored = Inr g'
           \<and> take (length h) g' = h \<and> scored < length g'
           \<and> g' ! scored = ListObj (rs @ new)
           \<and> map match_of new = map (\<lambda>a. Some (VRef a)) as
           \<and> list_all (result_of_record c h) new"
  using assms
proof (induction as arbitrary: g rs)
  case Nil
  then show ?case by simp
next
  case (Cons a as)
  from Cons.prems(5) obtain fr n where r: "read_fund h a = Some fr" and n: "name fr = Some n"
    and rest: "list_all (\<lambda>a. case read_fund h a of None \<Rightarrow> False | Some fr \<Rightarrow> name fr \<noteq> None) as"
    by (auto split: option.splits)
  from score_loop_st_step [OF Cons.prems(1) Cons.prems(2) Cons.prems(3) Cons.prems(4) r n,
      of c "map VRef as"]
  obtain g2 v where step: "score_loop_st c g (VRef a # map VRef as) scored
        = score_loop_st c g2 (map VRef as) scored"
    and e2: "take (length h) g2 = h" and s2: "scored < length g2"
    and l2: "g2 ! scored = ListObj (rs @ [v])"
    and m: "match_of v = Some (VRef a)" and ok: "result_of_record c h v"
    by blast
  from Cons.IH [OF e2 Cons.prems(2) s2 l2 rest]
  obtain g' new where run: "score_loop_st c g2 (map VRef as) scored = Inr g'"
    and e': "take (length h) g' = h" and s': "scored < length g'"
    and l': "g' ! scored = ListObj ((rs @ [v]) @ new)"
    and m': "map match_of new = map (\<lambda>a. Some (VRef a)) as"
    and ok': "list_all (result_of_record c h) new"
    by blast
  have "score_loop_st c g (map VRef (a # as)) scored = Inr g'"
    using step run by simp
  moreover have "g' ! scored = ListObj (rs @ (v # new))" using l' by simp
  moreover have "map match_of (v # new) = map (\<lambda>a. Some (VRef a)) (a # as)"
    using m m' by simp
  moreover have "list_all (result_of_record c h) (v # new)" using ok ok' by simp
  ultimately show ?case using e' s' by blast
qed

lemma result_of_record_extends:
  assumes "take (length h) g = h" and "result_of_record c h r"
  shows "result_of_record c g r"
proof -
  from assms(2) obtain a fr where m: "match_of r = Some (VRef a)"
    and rf: "read_fund h a = Some fr"
    and rest: "fund_of r = map_option VStr (name fr)
               \<and> score_of r = Some (bd_score (score_fund c fr))"
    by (auto simp: result_of_record_def split: option.splits val.splits)
  have "read_fund g a = Some fr" using assms(1) rf by (rule read_fund_extends)
  with m rest show ?thesis by (simp add: result_of_record_def)
qed

lemma result_of_record_score: "result_of_record c h r \<Longrightarrow> score_of r \<noteq> None"
  by (auto simp: result_of_record_def split: option.splits val.splits)

lemma read_fund_kept:
  assumes "take (length h) g = h"
    and "list_all (\<lambda>a. case read_fund h a of None \<Rightarrow> False | Some fr \<Rightarrow> name fr \<noteq> None) as"
  shows "map (read_fund g) as = map (read_fund h) as"
proof -
  have "read_fund g a = read_fund h a" if "a \<in> set as" for a
  proof -
    from assms(2) that obtain fr where r: "read_fund h a = Some fr"
      by (auto simp: list_all_iff split: option.splits)
    from assms(1) r have "read_fund g a = Some fr" by (rule read_fund_extends)
    with r show ?thesis by simp
  qed
  then show ?thesis by simp
qed

text \<open>
  C10. Scoring never mutates a fund record of the loaded dataset. For every criteria and
  every loaded dataset, \<^verbatim>\<open>query_pe_db\<close> returns, and the store at its return extends the
  store at its call: every object that existed at the call, the fund records among them,
  is what it was, and the writes of the engine (the item assignments to \<open>subs\<close>, the
  \<open>append\<close>s to \<open>scored\<close>) went to objects allocated during the call. The \<open>match\<close>
  fields of the returned results are the references of the dataset, each once; each
  result carries the name and the score of the record its \<open>match\<close> refers to, read in
  the store at return; the results are in descending order of score.
\<close>

theorem scoring_leaves_store_unchanged:
  assumes "dataset_at h funds as"
  shows "\<exists>h' ranked rs.
           query_pe_db_st c h funds = Inr (h', ranked)
           \<and> take (length h) h' = h
           \<and> map (read_fund h') as = map (read_fund h) as
           \<and> ranked < length h' \<and> h' ! ranked = ListObj rs
           \<and> mset (map match_of rs) = mset (map (\<lambda>a. Some (VRef a)) as)
           \<and> list_all (result_of_record c h') rs
           \<and> sorted_wrt (\<lambda>x y. score_key y \<le> score_key x) rs"
proof -
  from assms have f: "funds < length h" and d: "h ! funds = ListObj (map VRef as)"
    and wf: "list_all (\<lambda>a. case read_fund h a of None \<Rightarrow> False | Some fr \<Rightarrow> name fr \<noteq> None) as"
    by (simp_all add: dataset_at_def)
  define g0 where "g0 = h @ [ListObj []]"
  have "take (length h) g0 = h" "length h \<le> length h" "length h < length g0"
    "g0 ! length h = ListObj []"
    by (simp_all add: g0_def)
  from score_loop_st_frame [OF this wf, of c]
  obtain g' new where run: "score_loop_st c g0 (map VRef as) (length h) = Inr g'"
    and e': "take (length h) g' = h" and s': "length h < length g'"
    and l': "g' ! length h = ListObj new"
    and m': "map match_of new = map (\<lambda>a. Some (VRef a)) as"
    and ok': "list_all (result_of_record c h) new"
    by auto
  define rs where "rs = sorted_reverse score_key new"
  define h' where "h' = g' @ [ListObj rs]"
  have sc: "list_all (\<lambda>r. score_of r \<noteq> None) new"
    using ok' result_of_record_score [of c h] by (auto simp: list_all_iff)
  have q: "query_pe_db_st c h funds = Inr (h', length g')"
    using f d run l' sc
    by (simp add: query_pe_db_st_def alloc_def g0_def h'_def rs_def)
  have e: "take (length h) h' = h" using e' s' by (simp add: h'_def)
  have k: "map (read_fund h') as = map (read_fund h) as"
    using e wf by (rule read_fund_kept)
  have r: "length g' < length h'" "h' ! length g' = ListObj rs" by (simp_all add: h'_def)
  have "mset (map match_of rs) = mset (map match_of new)"
    by (simp add: rs_def mset_sorted_reverse)
  with m' have p: "mset (map match_of rs) = mset (map (\<lambda>a. Some (VRef a)) as)" by simp
  have "list_all (result_of_record c h) rs"
    using ok' by (simp add: list_all_iff rs_def set_sorted_reverse)
  then have ok: "list_all (result_of_record c h') rs"
    using result_of_record_extends [OF e] by (simp add: list_all_iff)
  have so: "sorted_wrt (\<lambda>x y. score_key y \<le> score_key x) rs"
    unfolding rs_def by (rule sorted_wrt_sorted_reverse)
  from q e k r p ok so show ?thesis by blast
qed

lemma dataset_at_example_store: "dataset_at example_store 4 [0, 1, 2, 3]"
  by code_simp

lemma query_pe_db_st_example:
  "map_sum id (\<lambda>(h', ranked). (take 5 h', map match_of (case h' ! ranked of
       ListObj rs \<Rightarrow> rs | DictObj kvs \<Rightarrow> [])))
     (query_pe_db_st example_criteria example_store 4)
   = Inr (example_store, [Some (VRef 1), Some (VRef 3), Some (VRef 0), Some (VRef 2)])"
  by code_simp

theorem scoring_leaves_store_unchanged_witness:
  "dataset_at example_store 4 [0, 1, 2, 3]
   \<and> map_sum id (\<lambda>(h', ranked). (take 5 h', map match_of (case h' ! ranked of
          ListObj rs \<Rightarrow> rs | DictObj kvs \<Rightarrow> [])))
        (query_pe_db_st example_criteria example_store 4)
      = Inr (example_store, [Some (VRef 1), Some (VRef 3), Some (VRef 0), Some (VRef 2)])
   \<and> (\<exists>h' ranked rs.
           query_pe_db_st example_criteria example_store 4 = Inr (h', ranked)
           \<and> take (length example_store) h' = example_store
           \<and> map (read_fund h') [0, 1, 2, 3] = map (read_fund example_store) [0, 1, 2, 3]
           \<and> ranked < length h' \<and> h' ! ranked = ListObj rs
           \<and> mset (map match_of rs) = mset (map (\<lambda>a. Some (VRef a)) [0, 1, 2, 3])
           \<and> list_all (result_of_record example_criteria h') rs
           \<and> sorted_wrt (\<lambda>x y. score_key y \<le> score_key x) rs)"
  using scoring_leaves_store_unchanged [OF dataset_at_example_store, of example_criteria]
    dataset_at_example_store query_pe_db_st_example
  by blast

end
